theory Spec2Isabelle
  imports Complex_Main
begin

section \<open>Python values and errors\<close>

text \<open>
  The notebook \<^verbatim>\<open>mtl_model_finetuning.ipynb\<close> is a Python script over PyTorch,
  Hugging Face and scikit-learn.  Exceptions of the script are values of \<open>error\<close>;
  a function that can raise returns \<open>error + 'a\<close> with \<open>Inl\<close> for the exception.
\<close>

datatype error = KeyError | IndexError | AttributeError | ZeroDivisionError | RuntimeError | ValueError

text \<open>
  A Python \<open>str\<close> is a sequence of Unicode code points.  Text fields of dataset rows and
  input sentences are lists of code points; dictionary keys, task names and label names
  (all ASCII literals of the notebook) are written as HOL strings.
\<close>

type_synonym pystr = "nat list"

datatype pyval =
    PyNone
  | PyBool bool
  | PyInt int
  | PyFloat real
  | PyStr pystr
  | PyList "pyval list"

text \<open>A raw dataset row: a \<open>Dict\<close> from column names to values.\<close>

type_synonym example = "string \<rightharpoonup> pyval"

section \<open>Filtering the raw rows\<close>

text \<open>
  The code points for which \<open>str.isspace\<close> holds; \<open>str.strip()\<close> without an argument
  removes them at both ends.
\<close>

definition is_space :: "nat \<Rightarrow> bool" where
  "is_space c \<longleftrightarrow>
     (9 \<le> c \<and> c \<le> 13) \<or> (28 \<le> c \<and> c \<le> 32) \<or> c = 133 \<or> c = 160 \<or> c = 5760 \<or>
     (8192 \<le> c \<and> c \<le> 8202) \<or> c = 8232 \<or> c = 8233 \<or> c = 8239 \<or> c = 8287 \<or> c = 12288"

definition strip :: "pystr \<Rightarrow> pystr" where
  "strip s = rev (dropWhile is_space (rev (dropWhile is_space s)))"

text \<open>\<open>example.get(key, None)\<close>\<close>

definition get_or_none :: "example \<Rightarrow> string \<Rightarrow> pyval" where
  "get_or_none ex k = (case ex k of None \<Rightarrow> PyNone | Some v \<Rightarrow> v)"

text \<open>\<open>isinstance(lbl, (int, bool))\<close>\<close>

fun isinstance_int_bool :: "pyval \<Rightarrow> bool" where
  "isinstance_int_bool (PyInt k) = True"
| "isinstance_int_bool (PyBool b) = True"
| "isinstance_int_bool v = False"

text \<open>
  \<^verbatim>\<open>
  def _is_real(example, text_key):
      txt = example.get(text_key, None)
      lbl = example.get("label", None)
      if not isinstance(txt, str) or txt.strip() == "":
          return False
      return isinstance(lbl, (int, bool))
  \<close>
  The \<open>or\<close> is short-circuit: \<open>strip\<close> is only called on a \<open>str\<close>.
\<close>

definition is_real :: "example \<Rightarrow> string \<Rightarrow> bool" where
  "is_real ex text_key =
     (let txt = get_or_none ex text_key;
          lbl = get_or_none ex ''label''
      in case txt of
           PyStr s \<Rightarrow> (if strip s = [] then False else isinstance_int_bool lbl)
         | _ \<Rightarrow> False)"

text \<open>
  \<open>ds.filter(_is_real, fn_kwargs={"text_key": key})\<close> of step 1 of \<open>prepare_loaders\<close>:
  the rows for which the predicate holds, in their order.
\<close>

definition filter_real :: "string \<Rightarrow> example list \<Rightarrow> example list" where
  "filter_real text_key rows = filter (\<lambda>ex. is_real ex text_key) rows"

text \<open>
  The invariant the data model names: the label of a row is a class index of its task,
  an integer in \<open>[0, n)\<close> for \<open>n\<close> classes (a \<open>bool\<close> counts as the integer 0 or 1).
\<close>

definition label_is_class_index :: "nat \<Rightarrow> example \<Rightarrow> bool" where
  "label_is_class_index n ex =
     (case ex ''label'' of
        Some (PyInt k) \<Rightarrow> 0 \<le> k \<and> k < int n
      | Some (PyBool b) \<Rightarrow> (if b then 1 else 0) < n
      | _ \<Rightarrow> False)"

text \<open>Code points of an ASCII literal.\<close>

definition py :: "string \<Rightarrow> pystr" where
  "py s = map of_char s"


section \<open>Tensors\<close>

text \<open>
  A tensor is a nested list: \<open>B \<times> T\<close> for token ids and attention masks,
  \<open>B \<times> T \<times> H\<close> for hidden states.  Lists can be ragged where tensors cannot, so the
  shape of a tensor is a predicate.
\<close>

definition is_tensor2 :: "nat \<Rightarrow> nat \<Rightarrow> 'a list list \<Rightarrow> bool" where
  "is_tensor2 B T x \<longleftrightarrow> length x = B \<and> (\<forall>r \<in> set x. length r = T)"

definition is_tensor3 :: "nat \<Rightarrow> nat \<Rightarrow> nat \<Rightarrow> 'a list list list \<Rightarrow> bool" where
  "is_tensor3 B T H x \<longleftrightarrow> length x = B \<and> (\<forall>r \<in> set x. is_tensor2 T H r)"

text \<open>
  Hidden states and logits are real numbers: rounding is not modelled.  A division of a
  float tensor by an integer tensor never raises; where the divisor is zero the result is
  \<open>nan\<close> (for \<open>0 / 0\<close>) or an infinity, which \<open>fl\<close> keeps apart from the numbers.
\<close>

datatype fl = Num real | NaN | PosInf | NegInf

definition true_divide :: "real \<Rightarrow> int \<Rightarrow> fl" where
  "true_divide x d =
     (if d \<noteq> 0 then Num (x / real_of_int d)
      else if x = 0 then NaN else if 0 < x then PosInf else NegInf)"

text \<open>
  \<open>hidden * mask\<close> with \<open>mask = attention_mask.unsqueeze(-1)\<close>: the mask entry of a
  token position multiplies every component of that position's hidden vector.
\<close>

definition mul_mask :: "real list list list \<Rightarrow> int list list \<Rightarrow> real list list list" where
  "mul_mask hidden msk =
     map2 (\<lambda>hs ms. map2 (\<lambda>h m. map (\<lambda>x. x * real_of_int m) h) hs ms) hidden msk"

text \<open>\<open>x.sum(1)\<close> of a \<open>B \<times> T \<times> H\<close> tensor with at least one token position
  (\<open>0 < T\<close>, as every tokenized batch has): the sum over the token positions.  A nested
  list without positions does not carry \<open>H\<close>.\<close>

definition sum_dim1 :: "real list list list \<Rightarrow> real list list" where
  "sum_dim1 x = map (\<lambda>rows. map sum_list (transpose rows)) x"

text \<open>\<open>mask.sum(1)\<close>: for every row of the batch, the sum of its mask entries.\<close>

definition mask_sum :: "int list list \<Rightarrow> int list" where
  "mask_sum msk = map sum_list msk"

text \<open>The division of a \<open>B \<times> H\<close> tensor by a \<open>B \<times> 1\<close> tensor, row by row.\<close>

definition div_rows :: "real list list \<Rightarrow> int list \<Rightarrow> fl list list" where
  "div_rows num den = map2 (\<lambda>v d. map (\<lambda>x. true_divide x d) v) num den"

text \<open>\<open>emb = (hidden * mask).sum(1) / mask.sum(1)\<close>\<close>

definition mean_pool :: "real list list list \<Rightarrow> int list list \<Rightarrow> fl list list" where
  "mean_pool hidden msk = div_rows (sum_dim1 (mul_mask hidden msk)) (mask_sum msk)"


section \<open>The model\<close>

text \<open>
  \<open>SentenceEncoder\<close>: the pretrained backbone and the projection
  \<open>Sequential(Linear(hidden, PROJ_DIM), ReLU)\<close>.  The parameters of a submodule are a
  value of a type variable.
\<close>

record ('bb, 'pj) SentenceEncoder =
  backbone :: 'bb
  proj :: 'pj

text \<open>
  \<open>MultiTaskModel.heads\<close> is a \<open>ModuleDict\<close> built with exactly the keys \<open>"topic"\<close>
  and \<open>"sentiment"\<close>, and nothing adds or removes a key.
\<close>

record 'h heads =
  head_topic :: 'h
  head_sentiment :: 'h

text \<open>
  \<open>training\<close> is the mode that \<open>model.train()\<close> and \<open>model.eval()\<close> set; the two lists
  of label names are the attributes that \<open>main_function\<close> stores on the model, absent
  before.
\<close>

record ('bb, 'pj, 'h) MultiTaskModel =
  encoder :: "('bb, 'pj) SentenceEncoder"
  heads :: "'h heads"
  training :: bool
  topic_label_names :: "string list option"
  sentiment_label_names :: "string list option"

text \<open>
  The layers of PyTorch and Hugging Face that the notebook calls, as parameters: the
  forward pass of the backbone (its \<open>last_hidden_state\<close>; the mode is an argument, the
  dropout noise of training mode is not modelled), of the projection and of a linear head,
  the constructors of the submodules, and the tokenizer call of \<open>predict_sentences\<close>
  (\<open>return_tensors="pt", padding=True, truncation=True, max_length=64\<close>, without
  \<open>token_type_ids\<close>), which returns the token ids and the attention mask or raises.
\<close>

record ('bb, 'pj, 'h, 'emb) nn_lib =
  backbone_fwd :: "bool \<Rightarrow> 'bb \<Rightarrow> int list list \<Rightarrow> int list list \<Rightarrow> real list list list"
  proj_fwd :: "'pj \<Rightarrow> fl list list \<Rightarrow> 'emb"
  linear_fwd :: "'h \<Rightarrow> 'emb \<Rightarrow> real list list"
  new_encoder :: "('bb, 'pj) SentenceEncoder"
  new_linear :: "nat \<Rightarrow> 'h"
  tokenize_pt :: "pystr list \<Rightarrow> error + (int list list \<times> int list list)"

text \<open>
  \<^verbatim>\<open>
  def forward(self, input_ids, attention_mask):
      out    = self.backbone(input_ids, attention_mask=attention_mask)
      hidden = out.last_hidden_state
      mask   = attention_mask.unsqueeze(-1)
      emb    = (hidden * mask).sum(1) / mask.sum(1)
      return self.proj(emb)
  \<close>
  \<open>SentenceEncoder_emb\<close> is the value of \<open>emb\<close>, the sentence vector before the
  projection.
\<close>

definition SentenceEncoder_emb ::
  "('bb, 'pj, 'h, 'emb) nn_lib \<Rightarrow> bool \<Rightarrow> ('bb, 'pj) SentenceEncoder \<Rightarrow>
     int list list \<Rightarrow> int list list \<Rightarrow> fl list list" where
  "SentenceEncoder_emb L tr enc ids msk =
     (let hidden = backbone_fwd L tr (backbone enc) ids msk
      in mean_pool hidden msk)"

definition SentenceEncoder_forward ::
  "('bb, 'pj, 'h, 'emb) nn_lib \<Rightarrow> bool \<Rightarrow> ('bb, 'pj) SentenceEncoder \<Rightarrow>
     int list list \<Rightarrow> int list list \<Rightarrow> 'emb" where
  "SentenceEncoder_forward L tr enc ids msk =
     proj_fwd L (proj enc) (SentenceEncoder_emb L tr enc ids msk)"

text \<open>\<open>self.heads[task]\<close>: a \<open>KeyError\<close> for any other task name.\<close>

definition get_head :: "'h heads \<Rightarrow> string \<Rightarrow> error + 'h" where
  "get_head hs task =
     (if task = ''topic'' then Inr (head_topic hs)
      else if task = ''sentiment'' then Inr (head_sentiment hs)
      else Inl KeyError)"

text \<open>
  \<^verbatim>\<open>
  def forward(self, input_ids, attention_mask, task):
      emb = self.encoder(input_ids, attention_mask)
      return self.heads[task](emb)
  \<close>
\<close>

definition MultiTaskModel_forward ::
  "('bb, 'pj, 'h, 'emb) nn_lib \<Rightarrow> ('bb, 'pj, 'h) MultiTaskModel \<Rightarrow>
     int list list \<Rightarrow> int list list \<Rightarrow> string \<Rightarrow> error + real list list" where
  "MultiTaskModel_forward L m ids msk task =
     (let emb = SentenceEncoder_forward L (training m) (encoder m) ids msk
      in case get_head (heads m) task of
           Inl e \<Rightarrow> Inl e
         | Inr h \<Rightarrow> Inr (linear_fwd L h emb))"

text \<open>
  \<open>MultiTaskModel(num_topic, num_sent)\<close>: a fresh encoder and the two heads
  \<open>nn.Linear(PROJ_DIM, num_topic)\<close> and \<open>nn.Linear(PROJ_DIM, num_sent)\<close>; a new module is
  in training mode.
\<close>

definition MultiTaskModel_init ::
  "('bb, 'pj, 'h, 'emb) nn_lib \<Rightarrow> nat \<Rightarrow> nat \<Rightarrow> ('bb, 'pj, 'h) MultiTaskModel" where
  "MultiTaskModel_init L num_topic num_sent =
     \<lparr>encoder = new_encoder L,
      heads = \<lparr>head_topic = new_linear L num_topic, head_sentiment = new_linear L num_sent\<rparr>,
      training = True,
      topic_label_names = None,
      sentiment_label_names = None\<rparr>"

section \<open>Inference\<close>

text \<open>
  \<open>logits.argmax(-1)\<close>: for every row the index of its first maximum; the reduction
  over a dimension of size 0 raises.
\<close>

fun first_max :: "real list \<Rightarrow> nat" where
  "first_max [] = 0"
| "first_max [x] = 0"
| "first_max (x # y # ys) =
     (let i = first_max (y # ys) in if x < (y # ys) ! i then Suc i else 0)"

definition argmax_row :: "real list \<Rightarrow> error + nat" where
  "argmax_row r = (if r = [] then Inl RuntimeError else Inr (first_max r))"

fun argmax_rows :: "real list list \<Rightarrow> error + nat list" where
  "argmax_rows [] = Inr []"
| "argmax_rows (r # rs) =
     (case argmax_row r of
        Inl e \<Rightarrow> Inl e
      | Inr i \<Rightarrow> (case argmax_rows rs of Inl e \<Rightarrow> Inl e | Inr js \<Rightarrow> Inr (i # js)))"

record prediction =
  sentence :: pystr
  topic :: string
  sentiment :: string

text \<open>
  The list comprehension of \<open>predict_sentences\<close> over
  \<open>zip(sentences, topic_ids, sent_ids)\<close>.  Each element reads
  \<open>model.topic_label_names[t_id]\<close>, then \<open>model.sentiment_label_names[s_id]\<close>: an
  \<open>AttributeError\<close> where the attribute was never stored, an \<open>IndexError\<close> where the
  id is not below the length of the list (the ids of an argmax are never negative).
\<close>

fun label_predictions ::
  "string list option \<Rightarrow> string list option \<Rightarrow> (pystr \<times> nat \<times> nat) list \<Rightarrow>
     error + prediction list" where
  "label_predictions tn sn [] = Inr []"
| "label_predictions tn sn ((s, t_id, s_id) # rest) =
     (case tn of
        None \<Rightarrow> Inl AttributeError
      | Some tnames \<Rightarrow>
          if length tnames \<le> t_id then Inl IndexError
          else (case sn of
                  None \<Rightarrow> Inl AttributeError
                | Some snames \<Rightarrow>
                    if length snames \<le> s_id then Inl IndexError
                    else (case label_predictions tn sn rest of
                            Inl e \<Rightarrow> Inl e
                          | Inr ps \<Rightarrow>
                              Inr (\<lparr>sentence = s, topic = tnames ! t_id,
                                    sentiment = snames ! s_id\<rparr> # ps))))"

text \<open>
  The part of \<open>predict_sentences\<close> after the two forward passes: the two argmax calls
  and the list comprehension.
\<close>

definition decode_logits ::
  "string list option \<Rightarrow> string list option \<Rightarrow> pystr list \<Rightarrow>
     real list list \<Rightarrow> real list list \<Rightarrow> error + prediction list" where
  "decode_logits tn sn sentences topic_logits sent_logits =
     (case argmax_rows topic_logits of
        Inl e \<Rightarrow> Inl e
      | Inr topic_ids \<Rightarrow>
          (case argmax_rows sent_logits of
             Inl e \<Rightarrow> Inl e
           | Inr sent_ids \<Rightarrow>
               label_predictions tn sn (zip sentences (zip topic_ids sent_ids))))"

text \<open>
  \<^verbatim>\<open>
  def predict_sentences(model, sentences):
      model.eval()
      toks = tokenizer(sentences, return_tensors="pt",
                       padding=True, truncation=True, max_length=64).to(DEVICE)
      toks.pop("token_type_ids", None)
      with torch.no_grad():
          topic_logits = model(toks["input_ids"], toks["attention_mask"], "topic")
          sent_logits  = model(toks["input_ids"], toks["attention_mask"], "sentiment")
      topic_ids = topic_logits.argmax(-1).cpu().tolist()
      sent_ids  = sent_logits.argmax(-1).cpu().tolist()
      return [{"sentence": s, "topic": model.topic_label_names[t_id],
               "sentiment": model.sentiment_label_names[s_id]}
              for s, t_id, s_id in zip(sentences, topic_ids, sent_ids)]
  \<close>
  The function returns the model as \<open>model.eval()\<close> leaves it, and the list or the
  exception.
\<close>

definition predict_sentences ::
  "('bb, 'pj, 'h, 'emb) nn_lib \<Rightarrow> ('bb, 'pj, 'h) MultiTaskModel \<Rightarrow> pystr list \<Rightarrow>
     ('bb, 'pj, 'h) MultiTaskModel \<times> (error + prediction list)" where
  "predict_sentences L m sentences =
     (let m' = m\<lparr>training := False\<rparr>
      in (m',
          case tokenize_pt L sentences of
            Inl e \<Rightarrow> Inl e
          | Inr (ids, msk) \<Rightarrow>
              (case MultiTaskModel_forward L m' ids msk ''topic'' of
                 Inl e \<Rightarrow> Inl e
               | Inr topic_logits \<Rightarrow>
                   (case MultiTaskModel_forward L m' ids msk ''sentiment'' of
                      Inl e \<Rightarrow> Inl e
                    | Inr sent_logits \<Rightarrow>
                        decode_logits (topic_label_names m') (sentiment_label_names m')
                          sentences topic_logits sent_logits))))"


section \<open>Metrics\<close>

text \<open>
  \<open>macro_metrics\<close> calls four scorers of scikit-learn, which is not part of the
  repository.  The scorers are modelled from the spec's glossary (macro metrics are
  precision, recall and F1 averaged unweighted across classes), for the arguments the
  notebook passes: \<open>average="macro"\<close> and a \<open>zero_division\<close> value.  Labels and
  predictions are Python integers; scores are real numbers.
\<close>

text \<open>Modelled from the spec: the classes of a pair of label lists (scikit-learn's
  \<open>unique_labels\<close>, absent from the repository), every label that occurs in either list,
  ascending.\<close>

definition unique_labels :: "int list \<Rightarrow> int list \<Rightarrow> int list" where
  "unique_labels y_true y_pred = sort (remdups (y_true @ y_pred))"

text \<open>Modelled from the spec: the counts behind the per-class scores of scikit-learn
  (absent from the repository): the positions where label and prediction are both \<open>c\<close>,
  the positions predicted \<open>c\<close>, and the positions labelled \<open>c\<close> (the support).\<close>

definition true_positives :: "int \<Rightarrow> int list \<Rightarrow> int list \<Rightarrow> nat" where
  "true_positives c y_true y_pred =
     length (filter (\<lambda>(t, p). t = c \<and> p = c) (zip y_true y_pred))"

definition n_predicted :: "int \<Rightarrow> int list \<Rightarrow> nat" where
  "n_predicted c y_pred = length (filter (\<lambda>p. p = c) y_pred)"

definition support :: "int \<Rightarrow> int list \<Rightarrow> nat" where
  "support c y_true = length (filter (\<lambda>t. t = c) y_true)"

text \<open>Modelled from the spec: a ratio of scikit-learn's scorers (absent from the
  repository) with its \<open>zero_division\<close> value where the denominator is zero.\<close>

definition ratio :: "real \<Rightarrow> real \<Rightarrow> real \<Rightarrow> real" where
  "ratio zd a b = (if b = 0 then zd else a / b)"

text \<open>Modelled from the spec: the per-class precision, recall and F1 of scikit-learn
  (absent from the repository); F1 is the harmonic mean of precision and recall.\<close>

definition class_precision :: "real \<Rightarrow> int list \<Rightarrow> int list \<Rightarrow> int \<Rightarrow> real" where
  "class_precision zd y_true y_pred c =
     ratio zd (real (true_positives c y_true y_pred)) (real (n_predicted c y_pred))"

definition class_recall :: "real \<Rightarrow> int list \<Rightarrow> int list \<Rightarrow> int \<Rightarrow> real" where
  "class_recall zd y_true y_pred c =
     ratio zd (real (true_positives c y_true y_pred)) (real (support c y_true))"

definition class_f1 :: "real \<Rightarrow> int list \<Rightarrow> int list \<Rightarrow> int \<Rightarrow> real" where
  "class_f1 zd y_true y_pred c =
     (let p = class_precision zd y_true y_pred c;
          r = class_recall zd y_true y_pred c
      in ratio zd (2 * p * r) (p + r))"

text \<open>Modelled from the spec: \<open>average="macro"\<close> of scikit-learn (absent from the
  repository), the unweighted mean of a per-class score over the classes.\<close>

definition macro_average :: "(int \<Rightarrow> real) \<Rightarrow> int list \<Rightarrow> int list \<Rightarrow> real" where
  "macro_average score y_true y_pred =
     sum_list (map score (unique_labels y_true y_pred)) /
       real (length (unique_labels y_true y_pred))"

text \<open>Modelled from the spec: scikit-learn's \<open>precision_score\<close>, \<open>recall_score\<close> and
  \<open>f1_score\<close> (absent from the repository) with \<open>average="macro"\<close>; the third argument
  is \<open>zero_division\<close>.\<close>

definition precision_score :: "int list \<Rightarrow> int list \<Rightarrow> real \<Rightarrow> real" where
  "precision_score y_true y_pred zd = macro_average (class_precision zd y_true y_pred) y_true y_pred"

definition recall_score :: "int list \<Rightarrow> int list \<Rightarrow> real \<Rightarrow> real" where
  "recall_score y_true y_pred zd = macro_average (class_recall zd y_true y_pred) y_true y_pred"

definition f1_score :: "int list \<Rightarrow> int list \<Rightarrow> real \<Rightarrow> real" where
  "f1_score y_true y_pred zd = macro_average (class_f1 zd y_true y_pred) y_true y_pred"

text \<open>Modelled from the spec: scikit-learn's \<open>accuracy_score\<close> (absent from the
  repository), the fraction of positions where the prediction equals the label.\<close>

definition accuracy_score :: "int list \<Rightarrow> int list \<Rightarrow> real" where
  "accuracy_score y_true y_pred =
     real (length (filter (\<lambda>(t, p). t = p) (zip y_true y_pred))) / real (length y_true)"

text \<open>
  \<^verbatim>\<open>
  def macro_metrics(y_true, y_pred):
      return {
          "acc" : accuracy_score(y_true, y_pred),
          "prec": precision_score(y_true, y_pred, average="macro", zero_division=0),
          "rec" : recall_score  (y_true, y_pred, average="macro", zero_division=0),
          "f1"  : f1_score      (y_true, y_pred, average="macro", zero_division=0),
      }
  \<close>
\<close>

record metrics =
  acc :: real
  prec :: real
  rec :: real
  f1 :: real

definition macro_metrics :: "int list \<Rightarrow> int list \<Rightarrow> metrics" where
  "macro_metrics y_true y_pred =
     \<lparr>acc = accuracy_score y_true y_pred,
      prec = precision_score y_true y_pred 0,
      rec = recall_score y_true y_pred 0,
      f1 = f1_score y_true y_pred 0\<rparr>"

text \<open>
  \<open>MetricsPrinter\<close>: \<open>log\<close> appends a row (the row keeps the four metrics as one
  field); \<open>print_epoch\<close> only prints and is not modelled.
\<close>

record mrow =
  epoch :: nat
  task :: string
  loss :: real
  row_metrics :: metrics

definition mp_log :: "mrow list \<Rightarrow> nat \<Rightarrow> string \<Rightarrow> real \<Rightarrow> metrics \<Rightarrow> mrow list" where
  "mp_log rows e t l ms = rows @ [\<lparr>epoch = e, task = t, loss = l, row_metrics = ms\<rparr>]"

section \<open>Data loaders\<close>

definition BATCH_SIZE :: nat where
  "BATCH_SIZE = 16"

definition EPOCHS :: nat where
  "EPOCHS = 3"

text \<open>A tokenized row in torch format: the columns \<open>input_ids\<close>, \<open>attention_mask\<close>
  and \<open>labels\<close>.  A batch is the list of its rows.\<close>

record row =
  input_ids :: "int list"
  attention_mask :: "int list"
  labels :: int

text \<open>\<open>DataLoader(ds, batch_size, shuffle=sh)\<close>, with \<open>drop_last\<close> at its default
  \<open>False\<close>.\<close>

record DataLoader =
  dataset :: "row list"
  batch_size :: nat
  shuffle :: bool

text \<open>\<open>def L(ds, sh=False): return DataLoader(ds, BATCH_SIZE, shuffle=sh)\<close>.  The
  constructor of a shuffling loader raises a \<open>ValueError\<close> for a dataset without rows
  (its random sampler needs a positive number of samples).\<close>

definition mk_loader :: "row list \<Rightarrow> bool \<Rightarrow> error + DataLoader" where
  "mk_loader ds sh =
     (if sh \<and> ds = [] then Inl ValueError
      else Inr \<lparr>dataset = ds, batch_size = BATCH_SIZE, shuffle = sh\<rparr>)"

text \<open>\<open>len(loader)\<close>: the number of batches, the last one possibly smaller.\<close>

definition len_loader :: "DataLoader \<Rightarrow> nat" where
  "len_loader l = (length (dataset l) + batch_size l - 1) div batch_size l"

text \<open>The batches of a list of rows: consecutive runs of \<open>n\<close> rows.\<close>

function chunks :: "nat \<Rightarrow> 'a list \<Rightarrow> 'a list list" where
  "chunks n xs = (if n = 0 \<or> xs = [] then [] else take n xs # chunks n (drop n xs))"
  by pat_completeness auto
termination
  by (relation "measure (\<lambda>(n, xs). length xs)") auto

declare chunks.simps [simp del]

text \<open>
  \<open>len(set(ds["labels"]))\<close> of \<open>prepare_loaders\<close>.  The dataset is in torch format
  by then, so the column is a tensor and its elements are tensors of one number each.  A
  tensor hashes by identity, not by value: the set keeps one element per row, and its
  length is the number of rows of the dataset, not the number of distinct labels.
\<close>

definition len_set_labels :: "int list \<Rightarrow> nat" where
  "len_set_labels col = length col"

definition topic_names :: "string list" where
  "topic_names = [''World'', ''Sports'', ''Business'', ''Sci/Tech'']"

definition sent_names :: "string list" where
  "sent_names = [''Negative'', ''Positive'']"

text \<open>
  Step 4 and the return value of \<open>prepare_loaders\<close>, from the six tokenized datasets
  (loading, splitting and tokenizing are library calls): the dictionary of loaders, built
  in the order of its keys, the two numbers \<open>n_topic\<close> and \<open>n_sent\<close> computed from the
  training labels, and the two lists of names.
\<close>

definition make_loaders ::
  "row list \<Rightarrow> row list \<Rightarrow> row list \<Rightarrow> row list \<Rightarrow> row list \<Rightarrow> row list \<Rightarrow>
     error + (string \<rightharpoonup> DataLoader) \<times> nat \<times> nat \<times> string list \<times> string list" where
  "make_loaders ag_tr ag_val ag_test sst_tr sst_val sst_test =
     (case mk_loader ag_tr True of Inl e \<Rightarrow> Inl e | Inr train_topic \<Rightarrow>
      case mk_loader ag_val False of Inl e \<Rightarrow> Inl e | Inr val_topic \<Rightarrow>
      case mk_loader ag_test False of Inl e \<Rightarrow> Inl e | Inr test_topic \<Rightarrow>
      case mk_loader sst_tr True of Inl e \<Rightarrow> Inl e | Inr train_sentiment \<Rightarrow>
      case mk_loader sst_val False of Inl e \<Rightarrow> Inl e | Inr val_sentiment \<Rightarrow>
      case mk_loader sst_test False of Inl e \<Rightarrow> Inl e | Inr test_sentiment \<Rightarrow>
        Inr ([''train_topic'' \<mapsto> train_topic,
              ''val_topic'' \<mapsto> val_topic,
              ''test_topic'' \<mapsto> test_topic,
              ''train_sentiment'' \<mapsto> train_sentiment,
              ''val_sentiment'' \<mapsto> val_sentiment,
              ''test_sentiment'' \<mapsto> test_sentiment],
             len_set_labels (map labels ag_tr),
             len_set_labels (map labels sst_tr),
             topic_names,
             sent_names))"

section \<open>Training\<close>

text \<open>
  \<open>get_scheduler("linear", optim, num_warmup_steps, num_training_steps)\<close>: the two
  budgets, and the number of calls of \<open>sched.step()\<close> so far.
\<close>

record scheduler =
  num_warmup_steps :: nat
  num_training_steps :: nat
  sched_steps :: nat

definition get_scheduler :: "nat \<Rightarrow> nat \<Rightarrow> scheduler" where
  "get_scheduler n_warmup n_training =
     \<lparr>num_warmup_steps = n_warmup, num_training_steps = n_training, sched_steps = 0\<rparr>"

text \<open>
  The training-time library calls, as parameters: the loss, the fresh state of
  \<open>AdamW(model.parameters(), lr=LR)\<close>, the effect of \<open>loss.backward(); optim.step()\<close>
  for a batch of a task (the optimizer holds all parameters of the model: the encoder and
  both heads; the learning rate is the scheduler's), the permutation a shuffling loader
  draws when an iteration starts, and \<open>classification_report\<close>.
\<close>

record ('bb, 'pj, 'h, 'o, 'g) train_lib =
  cross_entropy :: "real list list \<Rightarrow> int list \<Rightarrow> real"
  adamw_init :: "('bb, 'pj, 'h) MultiTaskModel \<Rightarrow> 'o"
  backward_adamw ::
    "'o \<Rightarrow> scheduler \<Rightarrow> ('bb, 'pj, 'h) MultiTaskModel \<Rightarrow> string \<Rightarrow> row list \<Rightarrow>
       ('bb, 'pj) SentenceEncoder \<times> 'h heads \<times> 'o"
  shuffle_rows :: "'g \<Rightarrow> row list \<Rightarrow> row list \<times> 'g"
  classification_report :: "int list \<Rightarrow> int list \<Rightarrow> string list \<Rightarrow> error + string"

text \<open>\<open>for batch in loader\<close>: the batches of one iteration, and the random state
  after drawing the order.\<close>

definition iter_loader ::
  "('bb, 'pj, 'h, 'o, 'g) train_lib \<Rightarrow> 'g \<Rightarrow> DataLoader \<Rightarrow> row list list \<times> 'g" where
  "iter_loader TL g l =
     (if shuffle l
      then (case shuffle_rows TL g (dataset l) of
              (rows, g') \<Rightarrow> (chunks (batch_size l) rows, g'))
      else (chunks (batch_size l) (dataset l), g))"

text \<open>
  The state of \<open>train_func\<close>: the model, the optimizer with the number of calls of
  \<open>optim.step()\<close>, the scheduler, the random state and the rows of the
  \<open>MetricsPrinter\<close>.
\<close>

record ('bb, 'pj, 'h, 'o, 'g) trainer =
  model :: "('bb, 'pj, 'h) MultiTaskModel"
  optim :: 'o
  optim_steps :: nat
  sched :: scheduler
  rng :: 'g
  mp_rows :: "mrow list"

text \<open>
  \<open>loss.backward(); optim.step(); sched.step()\<close> for one batch of a task.
  \<open>optim.zero_grad()\<close> before the forward pass clears the gradients of the batch
  before, so the step uses the gradients of this batch alone.
\<close>

definition apply_step ::
  "('bb, 'pj, 'h, 'o, 'g) train_lib \<Rightarrow> string \<Rightarrow> ('bb, 'pj, 'h, 'o, 'g) trainer \<Rightarrow>
     row list \<Rightarrow> ('bb, 'pj, 'h, 'o, 'g) trainer" where
  "apply_step TL t s batch =
     (case backward_adamw TL (optim s) (sched s) (model s) t batch of
        (enc', hs', o') \<Rightarrow>
          s\<lparr>model := (model s)\<lparr>encoder := enc', heads := hs'\<rparr>,
            optim := o',
            optim_steps := optim_steps s + 1,
            sched := (sched s)\<lparr>sched_steps := sched_steps (sched s) + 1\<rparr>\<rparr>)"

text \<open>
  The body of \<open>for batch in loader\<close> in \<open>train_func\<close>; the accumulator is
  \<open>(tot_loss, preds, labels)\<close>.
  \<^verbatim>\<open>
  optim.zero_grad()
  logits = model(batch["input_ids"], batch["attention_mask"], task)
  loss = F.cross_entropy(logits, batch["labels"])
  loss.backward(); optim.step(); sched.step()
  tot_loss += loss.item()
  preds  += logits.argmax(-1).cpu().tolist()
  labels += batch["labels"].cpu().tolist()
  \<close>
\<close>

definition train_batch ::
  "('bb, 'pj, 'h, 'emb) nn_lib \<Rightarrow> ('bb, 'pj, 'h, 'o, 'g) train_lib \<Rightarrow> string \<Rightarrow>
     ('bb, 'pj, 'h, 'o, 'g) trainer \<times> real \<times> int list \<times> int list \<Rightarrow> row list \<Rightarrow>
     error + ('bb, 'pj, 'h, 'o, 'g) trainer \<times> real \<times> int list \<times> int list" where
  "train_batch NL TL t st batch =
     (case st of (s, tot_loss, preds, labs) \<Rightarrow>
        (case MultiTaskModel_forward NL (model s) (map input_ids batch)
                (map attention_mask batch) t of
           Inl e \<Rightarrow> Inl e
         | Inr logits \<Rightarrow>
             (let l = cross_entropy TL logits (map labels batch);
                  s' = apply_step TL t s batch
              in case argmax_rows logits of
                   Inl e \<Rightarrow> Inl e
                 | Inr ids \<Rightarrow>
                     Inr (s', tot_loss + l, preds @ map int ids, labs @ map labels batch))))"

fun train_batches ::
  "('bb, 'pj, 'h, 'emb) nn_lib \<Rightarrow> ('bb, 'pj, 'h, 'o, 'g) train_lib \<Rightarrow> string \<Rightarrow>
     ('bb, 'pj, 'h, 'o, 'g) trainer \<times> real \<times> int list \<times> int list \<Rightarrow> row list list \<Rightarrow>
     error + ('bb, 'pj, 'h, 'o, 'g) trainer \<times> real \<times> int list \<times> int list" where
  "train_batches NL TL t st [] = Inr st"
| "train_batches NL TL t st (b # bs) =
     (case train_batch NL TL t st b of
        Inl e \<Rightarrow> Inl e
      | Inr st' \<Rightarrow> train_batches NL TL t st' bs)"

text \<open>
  One pass of \<open>for task in ["topic", "sentiment"]\<close>: the loader of the task, all its
  batches, then the row of metrics.  \<open>tot_loss/len(loader)\<close> is evaluated before
  \<open>macro_metrics\<close> and raises for a loader without batches.
\<close>

definition train_task ::
  "('bb, 'pj, 'h, 'emb) nn_lib \<Rightarrow> ('bb, 'pj, 'h, 'o, 'g) train_lib \<Rightarrow>
     (string \<rightharpoonup> DataLoader) \<Rightarrow> nat \<Rightarrow> ('bb, 'pj, 'h, 'o, 'g) trainer \<Rightarrow> string \<Rightarrow>
     error + ('bb, 'pj, 'h, 'o, 'g) trainer" where
  "train_task NL TL loaders e s t =
     (case loaders (''train_'' @ t) of
        None \<Rightarrow> Inl KeyError
      | Some loader \<Rightarrow>
          (case iter_loader TL (rng s) loader of
             (batches, g') \<Rightarrow>
               (case train_batches NL TL t (s\<lparr>rng := g'\<rparr>, 0, [], []) batches of
                  Inl err \<Rightarrow> Inl err
                | Inr (s', tot_loss, preds, labs) \<Rightarrow>
                    if len_loader loader = 0 then Inl ZeroDivisionError
                    else Inr (s'\<lparr>mp_rows :=
                                  mp_log (mp_rows s') e t (tot_loss / real (len_loader loader))
                                    (macro_metrics labs preds)\<rparr>))))"

fun train_tasks ::
  "('bb, 'pj, 'h, 'emb) nn_lib \<Rightarrow> ('bb, 'pj, 'h, 'o, 'g) train_lib \<Rightarrow>
     (string \<rightharpoonup> DataLoader) \<Rightarrow> nat \<Rightarrow> ('bb, 'pj, 'h, 'o, 'g) trainer \<Rightarrow> string list \<Rightarrow>
     error + ('bb, 'pj, 'h, 'o, 'g) trainer" where
  "train_tasks NL TL loaders e s [] = Inr s"
| "train_tasks NL TL loaders e s (t # ts) =
     (case train_task NL TL loaders e s t of
        Inl err \<Rightarrow> Inl err
      | Inr s' \<Rightarrow> train_tasks NL TL loaders e s' ts)"

text \<open>The body of \<open>for epoch in range(EPOCHS)\<close>: \<open>model.train()\<close>, then the two
  tasks in the order of the list.\<close>

definition train_epoch ::
  "('bb, 'pj, 'h, 'emb) nn_lib \<Rightarrow> ('bb, 'pj, 'h, 'o, 'g) train_lib \<Rightarrow>
     (string \<rightharpoonup> DataLoader) \<Rightarrow> ('bb, 'pj, 'h, 'o, 'g) trainer \<Rightarrow> nat \<Rightarrow>
     error + ('bb, 'pj, 'h, 'o, 'g) trainer" where
  "train_epoch NL TL loaders s e =
     train_tasks NL TL loaders e (s\<lparr>model := (model s)\<lparr>training := True\<rparr>\<rparr>)
       [''topic'', ''sentiment'']"

fun train_epochs ::
  "('bb, 'pj, 'h, 'emb) nn_lib \<Rightarrow> ('bb, 'pj, 'h, 'o, 'g) train_lib \<Rightarrow>
     (string \<rightharpoonup> DataLoader) \<Rightarrow> ('bb, 'pj, 'h, 'o, 'g) trainer \<Rightarrow> nat list \<Rightarrow>
     error + ('bb, 'pj, 'h, 'o, 'g) trainer" where
  "train_epochs NL TL loaders s [] = Inr s"
| "train_epochs NL TL loaders s (e # es) =
     (case train_epoch NL TL loaders s e of
        Inl err \<Rightarrow> Inl err
      | Inr s' \<Rightarrow> train_epochs NL TL loaders s' es)"

text \<open>
  \<^verbatim>\<open>
  def train_func(model, loaders):
      model.to(DEVICE)
      optim = AdamW(model.parameters(), lr=LR)
      steps = EPOCHS * sum(len(loaders[k])
                           for k in ["train_topic", "train_sentiment"])
      sched = get_scheduler("linear", optim,
                            num_warmup_steps=int(0.1 * steps),
                            num_training_steps=steps)
      mp = MetricsPrinter()
      for epoch in range(EPOCHS):
          ...
  \<close>
  \<open>int(0.1 * steps)\<close> is the floor of the exact product.  \<open>init_trainer\<close> is the
  state before the first epoch; the function returns the state it leaves behind, or the
  exception.
\<close>

definition init_trainer ::
  "('bb, 'pj, 'h, 'o, 'g) train_lib \<Rightarrow> ('bb, 'pj, 'h) MultiTaskModel \<Rightarrow> nat \<Rightarrow> 'g \<Rightarrow>
     ('bb, 'pj, 'h, 'o, 'g) trainer" where
  "init_trainer TL m steps g =
     \<lparr>model = m,
      optim = adamw_init TL m,
      optim_steps = 0,
      sched = get_scheduler (nat \<lfloor>(1 / 10) * real steps\<rfloor>) steps,
      rng = g,
      mp_rows = []\<rparr>"

definition train_func ::
  "('bb, 'pj, 'h, 'emb) nn_lib \<Rightarrow> ('bb, 'pj, 'h, 'o, 'g) train_lib \<Rightarrow>
     ('bb, 'pj, 'h) MultiTaskModel \<Rightarrow> (string \<rightharpoonup> DataLoader) \<Rightarrow> 'g \<Rightarrow>
     error + ('bb, 'pj, 'h, 'o, 'g) trainer" where
  "train_func NL TL m loaders g =
     (case loaders ''train_topic'' of
        None \<Rightarrow> Inl KeyError
      | Some lt \<Rightarrow>
          (case loaders ''train_sentiment'' of
             None \<Rightarrow> Inl KeyError
           | Some ls \<Rightarrow>
               (let steps = EPOCHS * (len_loader lt + len_loader ls)
                in train_epochs NL TL loaders (init_trainer TL m steps g) [0..<EPOCHS])))"

text \<open>
  The order in which a run of \<open>n\<close> epochs meets the batches, written out: per epoch the
  batches of the topic loader, then the batches of the sentiment loader, each with its
  task.
\<close>

fun batch_order ::
  "('bb, 'pj, 'h, 'o, 'g) train_lib \<Rightarrow> DataLoader \<Rightarrow> DataLoader \<Rightarrow> 'g \<Rightarrow> nat \<Rightarrow>
     (string \<times> row list) list" where
  "batch_order TL lt ls g 0 = []"
| "batch_order TL lt ls g (Suc n) =
     (case iter_loader TL g lt of
        (bt, g1) \<Rightarrow>
          (case iter_loader TL g1 ls of
             (bs, g2) \<Rightarrow>
               map (Pair ''topic'') bt @ map (Pair ''sentiment'') bs @
                 batch_order TL lt ls g2 n))"

text \<open>A sequence of tasks alternates when no two neighbours are the same task.\<close>

fun alternates :: "string list \<Rightarrow> bool" where
  "alternates (a # b # ts) = (a \<noteq> b \<and> alternates (b # ts))"
| "alternates ts = True"

section \<open>Evaluation\<close>

text \<open>
  The body of \<open>for batch in loader\<close> in \<open>evaluate\<close>, under \<open>torch.no_grad()\<close>; the
  accumulator is \<open>(preds, labels)\<close>.
\<close>

fun eval_batches ::
  "('bb, 'pj, 'h, 'emb) nn_lib \<Rightarrow> ('bb, 'pj, 'h) MultiTaskModel \<Rightarrow> string \<Rightarrow>
     int list \<times> int list \<Rightarrow> row list list \<Rightarrow> error + int list \<times> int list" where
  "eval_batches NL m t pl [] = Inr pl"
| "eval_batches NL m t pl (batch # bs) =
     (case MultiTaskModel_forward NL m (map input_ids batch) (map attention_mask batch) t of
        Inl e \<Rightarrow> Inl e
      | Inr logits \<Rightarrow>
          (case argmax_rows logits of
             Inl e \<Rightarrow> Inl e
           | Inr ids \<Rightarrow>
               eval_batches NL m t (fst pl @ map int ids, snd pl @ map labels batch) bs))"

text \<open>What \<open>evaluate\<close> prints for a task: its name, the macro metrics and the
  classification report.\<close>

type_synonym eval_out = "string \<times> metrics \<times> string"

definition eval_task ::
  "('bb, 'pj, 'h, 'emb) nn_lib \<Rightarrow> ('bb, 'pj, 'h, 'o, 'g) train_lib \<Rightarrow>
     ('bb, 'pj, 'h) MultiTaskModel \<Rightarrow> (string \<rightharpoonup> DataLoader) \<Rightarrow> string \<Rightarrow> 'g \<Rightarrow>
     string \<times> string list \<Rightarrow> 'g \<times> (error + eval_out)" where
  "eval_task NL TL m loaders stage g tn =
     (case tn of (t, names) \<Rightarrow>
        (case loaders (stage @ ''_'' @ t) of
           None \<Rightarrow> (g, Inl KeyError)
         | Some loader \<Rightarrow>
             (case iter_loader TL g loader of
                (batches, g') \<Rightarrow>
                  (case eval_batches NL m t ([], []) batches of
                     Inl e \<Rightarrow> (g', Inl e)
                   | Inr (preds, labs) \<Rightarrow>
                       (let mac = macro_metrics labs preds
                        in case classification_report TL labs preds names of
                             Inl e \<Rightarrow> (g', Inl e)
                           | Inr rep \<Rightarrow> (g', Inr (t, mac, rep)))))))"

fun eval_tasks ::
  "('bb, 'pj, 'h, 'emb) nn_lib \<Rightarrow> ('bb, 'pj, 'h, 'o, 'g) train_lib \<Rightarrow>
     ('bb, 'pj, 'h) MultiTaskModel \<Rightarrow> (string \<rightharpoonup> DataLoader) \<Rightarrow> string \<Rightarrow> 'g \<Rightarrow>
     (string \<times> string list) list \<Rightarrow> 'g \<times> (error + eval_out list)" where
  "eval_tasks NL TL m loaders stage g [] = (g, Inr [])"
| "eval_tasks NL TL m loaders stage g (tn # tns) =
     (case eval_task NL TL m loaders stage g tn of
        (g', Inl e) \<Rightarrow> (g', Inl e)
      | (g', Inr out) \<Rightarrow>
          (case eval_tasks NL TL m loaders stage g' tns of
             (g'', Inl e) \<Rightarrow> (g'', Inl e)
           | (g'', Inr outs) \<Rightarrow> (g'', Inr (out # outs))))"

text \<open>
  \<^verbatim>\<open>
  def evaluate(model, loaders, stage, names_topic, names_sent):
      model.eval()
      for task, names in [("topic", names_topic), ("sentiment", names_sent)]:
          loader = loaders[f"{stage}_{task}"]
          preds, labels = [], []
          with torch.no_grad():
              for batch in loader:
                  ...
          mac = macro_metrics(labels, preds)
          print(...)
          print(classification_report(labels, preds, target_names=names, digits=3))
  \<close>
  The function returns the model and the random state it leaves behind, and what it
  printed or the exception.
\<close>

definition evaluate ::
  "('bb, 'pj, 'h, 'emb) nn_lib \<Rightarrow> ('bb, 'pj, 'h, 'o, 'g) train_lib \<Rightarrow>
     ('bb, 'pj, 'h) MultiTaskModel \<Rightarrow> 'g \<Rightarrow> (string \<rightharpoonup> DataLoader) \<Rightarrow> string \<Rightarrow>
     string list \<Rightarrow> string list \<Rightarrow>
     ('bb, 'pj, 'h) MultiTaskModel \<times> 'g \<times> (error + eval_out list)" where
  "evaluate NL TL m g loaders stage names_topic names_sent =
     (let m' = m\<lparr>training := False\<rparr>
      in (m', eval_tasks NL TL m' loaders stage g
                [(''topic'', names_topic), (''sentiment'', names_sent)]))"

section \<open>The driver\<close>

text \<open>
  \<^verbatim>\<open>
  def main_function():
      loaders, n_topic, n_sent, t_names, s_names = prepare_loaders()
      model = MultiTaskModel(n_topic, n_sent)
      train_func(model, loaders)
      evaluate(model, loaders, "val",  t_names, s_names)
      evaluate(model, loaders, "test", t_names, s_names)
      model.topic_label_names     = t_names
      model.sentiment_label_names = s_names
      return model
  \<close>
  from the six tokenized datasets.
\<close>

definition main_function ::
  "('bb, 'pj, 'h, 'emb) nn_lib \<Rightarrow> ('bb, 'pj, 'h, 'o, 'g) train_lib \<Rightarrow> 'g \<Rightarrow>
     row list \<Rightarrow> row list \<Rightarrow> row list \<Rightarrow> row list \<Rightarrow> row list \<Rightarrow> row list \<Rightarrow>
     error + ('bb, 'pj, 'h) MultiTaskModel" where
  "main_function NL TL g ag_tr ag_val ag_test sst_tr sst_val sst_test =
     (case make_loaders ag_tr ag_val ag_test sst_tr sst_val sst_test of
        Inl e \<Rightarrow> Inl e
      | Inr (loaders, n_topic, n_sent, t_names, s_names) \<Rightarrow>
          (case train_func NL TL (MultiTaskModel_init NL n_topic n_sent) loaders g of
             Inl e \<Rightarrow> Inl e
           | Inr s \<Rightarrow>
               (case evaluate NL TL (model s) (rng s) loaders ''val'' t_names s_names of
                  (m1, g1, Inl e) \<Rightarrow> Inl e
                | (m1, g1, Inr out1) \<Rightarrow>
                    (case evaluate NL TL m1 g1 loaders ''test'' t_names s_names of
                       (m2, g2, Inl e) \<Rightarrow> Inl e
                     | (m2, g2, Inr out2) \<Rightarrow>
                         Inr (m2\<lparr>topic_label_names := Some t_names,
                                 sentiment_label_names := Some s_names\<rparr>)))))"


section \<open>A small instance of the libraries\<close>

text \<open>
  A concrete choice for every library parameter, small enough to run the notebook's
  functions on explicit inputs.  The backbone maps a token id \<open>k\<close> to the hidden vector
  \<open>[k, 1]\<close>; the projection is a ReLU on the numbers; a head is its weight matrix (a
  head without weights gives the single logit 0); the tokenizer takes the code points as
  token ids and pads to the longest sentence.
\<close>

definition toy_nn :: "(unit, unit, real list list, real list list) nn_lib" where
  "toy_nn =
     \<lparr>backbone_fwd = (\<lambda>tr bb ids msk. map (map (\<lambda>k. [real_of_int k, 1])) ids),
      proj_fwd = (\<lambda>pj e. map (map (\<lambda>v. case v of Num x \<Rightarrow> max x 0 | _ \<Rightarrow> 0)) e),
      linear_fwd = (\<lambda>w e. map (\<lambda>v. if w = [] then [0]
                                   else map (\<lambda>wr. sum_list (map2 (*) wr v)) w) e),
      new_encoder = \<lparr>backbone = (), proj = ()\<rparr>,
      new_linear = (\<lambda>n. map (\<lambda>i. [real i, 1]) [0..<n]),
      tokenize_pt = (\<lambda>ss. if ss = [] then Inl ValueError
         else Inr (map (\<lambda>s. map int s @ replicate (Max (set (map length ss)) - length s) 0) ss,
                   map (\<lambda>s. replicate (length s) 1 @
                               replicate (Max (set (map length ss)) - length s) 0) ss))\<rparr>"

text \<open>
  The optimizer of the instance keeps the parameters and records, in its state, the task
  and the size of every batch it steps on, in order.  Shuffling reverses the rows.
\<close>

definition toy_train ::
  "(unit, unit, real list list, (string \<times> nat) list, unit) train_lib" where
  "toy_train =
     \<lparr>cross_entropy = (\<lambda>logits ls. 0),
      adamw_init = (\<lambda>m. []),
      backward_adamw = (\<lambda>st sch m t batch. (encoder m, heads m, st @ [(t, length batch)])),
      shuffle_rows = (\<lambda>g rows. (rev rows, g)),
      classification_report = (\<lambda>ls ps names. Inr [])\<rparr>"

definition toy_row :: "int \<Rightarrow> int \<Rightarrow> row" where
  "toy_row k l = \<lparr>input_ids = [k], attention_mask = [1], labels = l\<rparr>"

definition toy_model :: "(unit, unit, real list list) MultiTaskModel" where
  "toy_model = MultiTaskModel_init toy_nn 4 2"

text \<open>The model of the instance with the label names that \<open>main_function\<close> stores.\<close>

definition toy_named :: "(unit, unit, real list list) MultiTaskModel" where
  "toy_named = toy_model\<lparr>topic_label_names := Some topic_names,
                            sentiment_label_names := Some sent_names\<rparr>"

text \<open>Seventeen tokenized rows per task, two batches of a loader of \<open>make_loaders\<close>.\<close>

definition toy_ag :: "row list" where
  "toy_ag = map (\<lambda>k. toy_row k (k mod 4)) [1..17]"

definition toy_sst :: "row list" where
  "toy_sst = map (\<lambda>k. toy_row k (k mod 2)) [1..17]"

definition toy_train_topic :: DataLoader where
  "toy_train_topic = \<lparr>dataset = toy_ag, batch_size = BATCH_SIZE, shuffle = True\<rparr>"

definition toy_train_sentiment :: DataLoader where
  "toy_train_sentiment = \<lparr>dataset = toy_sst, batch_size = BATCH_SIZE, shuffle = True\<rparr>"

definition toy_loaders :: "string \<rightharpoonup> DataLoader" where
  "toy_loaders =
     (case make_loaders toy_ag toy_ag toy_ag toy_sst toy_sst toy_sst of
        Inl e \<Rightarrow> Map.empty
      | Inr (loaders, n_topic, n_sent, t_names, s_names) \<Rightarrow> loaders)"



section \<open>Facts about the filter\<close>

lemma dropWhile_all_iff: "(\<forall>x \<in> set (dropWhile P s). P x) \<longleftrightarrow> (\<forall>x \<in> set s. P x)"
  by (induction s) auto

lemma strip_empty_iff: "strip s = [] \<longleftrightarrow> (\<forall>c \<in> set s. is_space c)"
  by (simp add: strip_def dropWhile_all_iff)

lemma strip_nonempty_iff: "strip s \<noteq> [] \<longleftrightarrow> (\<exists>c \<in> set s. \<not> is_space c)"
  by (simp add: strip_empty_iff)

lemma isinstance_int_bool_iff:
  "isinstance_int_bool v \<longleftrightarrow> (\<exists>k. v = PyInt k) \<or> (\<exists>b. v = PyBool b)"
  by (cases v) auto

lemma is_real_iff:
  "is_real ex key \<longleftrightarrow>
     (\<exists>s. ex key = Some (PyStr s) \<and> strip s \<noteq> []) \<and>
     ((\<exists>k. ex ''label'' = Some (PyInt k)) \<or> (\<exists>b. ex ''label'' = Some (PyBool b)))"
  by (auto simp: is_real_def get_or_none_def Let_def isinstance_int_bool_iff
      split: option.splits pyval.splits)

text \<open>
  C4 (as stated, refuted): the filter does not check the range of a label.  The row
  \<open>{"text": "x", "label": -1}\<close> is kept by the filter, and \<open>-1\<close> is a class index of
  no task (the four topic classes are \<open>0..3\<close>).
\<close>

theorem C4_filter_keeps_invalid_class_index:
  "filter_real ''text'' [[''text'' \<mapsto> PyStr (py ''x''), ''label'' \<mapsto> PyInt (- 1)]]
     = [[''text'' \<mapsto> PyStr (py ''x''), ''label'' \<mapsto> PyInt (- 1)]]
   \<and> \<not> label_is_class_index 4 [''text'' \<mapsto> PyStr (py ''x''), ''label'' \<mapsto> PyInt (- 1)]"
  by (simp add: filter_real_def is_real_def get_or_none_def label_is_class_index_def
      py_def strip_def is_space_def)

text \<open>
  C4 (amended): the filter keeps exactly the rows whose text field is a string with a
  non-empty strip and whose label is an \<open>int\<close> or a \<open>bool\<close>, in their order; rows whose
  label is missing or of another type are removed.  The range of the label is not checked.
\<close>

theorem C4_filter_real_keeps:
  "filter_real key rows =
     filter (\<lambda>ex. (\<exists>s. ex key = Some (PyStr s) \<and> (\<exists>c \<in> set s. \<not> is_space c)) \<and>
                  ((\<exists>k. ex ''label'' = Some (PyInt k)) \<or> (\<exists>b. ex ''label'' = Some (PyBool b))))
       rows"
  unfolding filter_real_def by (rule filter_cong) (simp_all add: is_real_iff strip_nonempty_iff)

theorem C4_filter_real_keeps_witness:
  "filter_real ''sentence''
     [[''sentence'' \<mapsto> PyStr (py ''ok''), ''label'' \<mapsto> PyInt 1],
      [''sentence'' \<mapsto> PyStr (py ''  ''), ''label'' \<mapsto> PyInt 0],
      [''sentence'' \<mapsto> PyStr (py ''no label'')],
      [''sentence'' \<mapsto> PyStr (py ''bad''), ''label'' \<mapsto> PyStr (py ''1'')],
      [''sentence'' \<mapsto> PyInt 3, ''label'' \<mapsto> PyInt 0],
      [''sentence'' \<mapsto> PyStr (py ''t''), ''label'' \<mapsto> PyBool True]]
   = [[''sentence'' \<mapsto> PyStr (py ''ok''), ''label'' \<mapsto> PyInt 1],
      [''sentence'' \<mapsto> PyStr (py ''t''), ''label'' \<mapsto> PyBool True]]"
  by (subst C4_filter_real_keeps) (auto simp: py_def is_space_def)


section \<open>Facts about mean pooling\<close>



lemma mul_mask_row:
  assumes "is_tensor3 B T H hidden" "is_tensor2 B T msk" "b < B"
  shows "mul_mask hidden msk ! b = map2 (\<lambda>h m. map (\<lambda>x. x * real_of_int m) h) (hidden ! b) (msk ! b)"
  using assms by (simp add: mul_mask_def is_tensor3_def is_tensor2_def)















section \<open>Facts about the argmax and the label lookup\<close>

lemma first_max_less: "r \<noteq> [] \<Longrightarrow> first_max r < length r"
  by (induction r rule: first_max.induct) (auto simp: Let_def)

lemma first_max_ge: "j < length r \<Longrightarrow> r ! j \<le> r ! first_max r"
proof (induction r arbitrary: j rule: first_max.induct)
  case 1
  then show ?case by simp
next
  case (2 x)
  then show ?case by simp
next
  case (3 x y ys)
  let ?i = "first_max (y # ys)"
  show ?case
  proof (cases j)
    case 0
    then show ?thesis by (auto simp: Let_def)
  next
    case (Suc k)
    then have "k < length (y # ys)" using "3.prems" by simp
    then have "(y # ys) ! k \<le> (y # ys) ! ?i" by (rule "3.IH")
    then show ?thesis using Suc by (auto simp: Let_def)
  qed
qed

lemma first_max_first: "j < first_max r \<Longrightarrow> r ! j < r ! first_max r"
proof (induction r arbitrary: j rule: first_max.induct)
  case 1
  then show ?case by simp
next
  case (2 x)
  then show ?case by simp
next
  case (3 x y ys)
  let ?i = "first_max (y # ys)"
  show ?case
  proof (cases "x < (y # ys) ! ?i")
    case True
    then have fm: "first_max (x # y # ys) = Suc ?i" by (simp add: Let_def)
    show ?thesis
    proof (cases j)
      case 0
      then show ?thesis using True fm by simp
    next
      case (Suc k)
      then have "k < ?i" using "3.prems" fm by simp
      then have "(y # ys) ! k < (y # ys) ! ?i" by (rule "3.IH")
      then show ?thesis using Suc fm by simp
    qed
  next
    case False
    then have "first_max (x # y # ys) = 0" by (simp add: Let_def)
    then show ?thesis using "3.prems" by simp
  qed
qed

lemma first_max_const: "\<forall>x \<in> set r. x = c \<Longrightarrow> first_max r = 0"
proof (rule ccontr)
  assume all: "\<forall>x \<in> set r. x = c" and "first_max r \<noteq> 0"
  then have pos: "0 < first_max r" by simp
  then have ne: "r \<noteq> []" by (cases r) auto
  have lt: "first_max r < length r" using ne by (rule first_max_less)
  have "r ! 0 < r ! first_max r" using pos by (rule first_max_first)
  moreover have "r ! 0 = c" using all ne by (cases r) auto
  moreover have "r ! first_max r = c" using all lt by auto
  ultimately show False by simp
qed

lemma first_max_last: "first_max (replicate n 0 @ [1]) = n"
proof -
  let ?r = "replicate n (0::real) @ [1]"
  have lt: "first_max ?r < length ?r" by (rule first_max_less) simp
  have "?r ! n \<le> ?r ! first_max ?r" by (rule first_max_ge) simp
  then have "1 \<le> ?r ! first_max ?r" by (simp add: nth_append)
  then have "\<not> first_max ?r < n" by (auto simp: nth_append)
  then show ?thesis using lt by simp
qed

lemma argmax_rows_ok:
  "\<forall>r \<in> set x. r \<noteq> [] \<Longrightarrow> argmax_rows x = Inr (map first_max x)"
  by (induction x) (auto simp: argmax_row_def)

lemma label_predictions_ok:
  assumes "\<forall>(s, t, i) \<in> set zs. t < length tn \<and> i < length sn"
  shows "label_predictions (Some tn) (Some sn) zs =
     Inr (map (\<lambda>(s, t, i). \<lparr>sentence = s, topic = tn ! t, sentiment = sn ! i\<rparr>) zs)"
  using assms by (induction zs) auto

lemma label_predictions_bad:
  assumes "(s, t, i) \<in> set zs" "\<not> (t < length tn \<and> i < length sn)"
  shows "label_predictions (Some tn) (Some sn) zs = Inl IndexError"
  using assms
proof (induction zs)
  case Nil
  then show ?case by simp
next
  case (Cons z zs)
  obtain s' t' i' where z: "z = (s', t', i')" by (cases z) auto
  show ?case
  proof (cases "t' < length tn \<and> i' < length sn")
    case True
    then have "(s, t, i) \<in> set zs" using Cons.prems z by auto
    then have "label_predictions (Some tn) (Some sn) zs = Inl IndexError"
      using Cons.IH Cons.prems(2) by simp
    then show ?thesis using True z by simp
  next
    case False
    then show ?thesis using z by auto
  qed
qed

lemma decode_logits_ok:
  assumes tlg: "is_tensor2 n nt tlg" and slg: "is_tensor2 n ns slg"
    and nt: "0 < nt" "nt \<le> length tn" and ns: "0 < ns" "ns \<le> length sn"
  shows "decode_logits (Some tn) (Some sn) ss tlg slg =
     Inr (map (\<lambda>(s, t, i). \<lparr>sentence = s, topic = tn ! t, sentiment = sn ! i\<rparr>)
            (zip ss (zip (map first_max tlg) (map first_max slg))))"
proof -
  have tne: "\<forall>r \<in> set tlg. r \<noteq> []" and sne: "\<forall>r \<in> set slg. r \<noteq> []"
    using tlg slg nt ns by (auto simp: is_tensor2_def)
  have tlt: "\<forall>r \<in> set tlg. first_max r < length tn"
  proof
    fix r assume r: "r \<in> set tlg"
    then have "first_max r < length r" using tne by (simp add: first_max_less)
    moreover have "length r = nt" using r tlg by (simp add: is_tensor2_def)
    ultimately show "first_max r < length tn" using nt by simp
  qed
  have slt: "\<forall>r \<in> set slg. first_max r < length sn"
  proof
    fix r assume r: "r \<in> set slg"
    then have "first_max r < length r" using sne by (simp add: first_max_less)
    moreover have "length r = ns" using r slg by (simp add: is_tensor2_def)
    ultimately show "first_max r < length sn" using ns by simp
  qed
  have "\<forall>(s, t, i) \<in> set (zip ss (zip (map first_max tlg) (map first_max slg))).
          t < length tn \<and> i < length sn"
  proof (clarify)
    fix s t i
    assume "(s, t, i) \<in> set (zip ss (zip (map first_max tlg) (map first_max slg)))"
    then have ti: "(t, i) \<in> set (zip (map first_max tlg) (map first_max slg))"
      by (rule set_zip_rightD)
    have "t \<in> set (map first_max tlg)" using ti by (rule set_zip_leftD)
    moreover have "i \<in> set (map first_max slg)" using ti by (rule set_zip_rightD)
    ultimately show "t < length tn \<and> i < length sn" using tlt slt by auto
  qed
  then show ?thesis
    by (simp add: decode_logits_def argmax_rows_ok [OF tne] argmax_rows_ok [OF sne]
        label_predictions_ok)
qed

lemma decode_logits_bad:
  assumes "0 < nt" "0 < ns" "\<not> (nt \<le> length tn \<and> ns \<le> length sn)"
  shows "\<exists>tlg slg. is_tensor2 (length [s]) nt tlg \<and> is_tensor2 (length [s]) ns slg \<and>
           decode_logits (Some tn) (Some sn) [s] tlg slg = Inl IndexError"
proof (cases "nt \<le> length tn")
  case False
  let ?tlg = "[replicate (nt - 1) (0::real) @ [1]]" and ?slg = "[replicate ns (0::real)]"
  have "is_tensor2 (length [s]) nt ?tlg" "is_tensor2 (length [s]) ns ?slg"
    using assms(1) by (simp_all add: is_tensor2_def)
  moreover have "decode_logits (Some tn) (Some sn) [s] ?tlg ?slg = Inl IndexError"
    using assms(1,2) False
    by (auto simp: decode_logits_def argmax_row_def first_max_last)
  ultimately show ?thesis by blast
next
  case True
  then have ns: "\<not> ns \<le> length sn" using assms(3) by simp
  let ?tlg = "[replicate nt (0::real)]" and ?slg = "[replicate (ns - 1) (0::real) @ [1]]"
  have z: "first_max (replicate nt (0::real)) = 0" by (rule first_max_const [of _ 0]) simp
  have "is_tensor2 (length [s]) nt ?tlg" "is_tensor2 (length [s]) ns ?slg"
    using assms(2) by (simp_all add: is_tensor2_def)
  moreover have "decode_logits (Some tn) (Some sn) [s] ?tlg ?slg = Inl IndexError"
    using assms(1,2) True ns
    by (auto simp: decode_logits_def argmax_row_def first_max_last z)
  ultimately show ?thesis by blast
qed

lemma index_in_range_iff:
  assumes "0 < nt" "0 < ns"
  shows "(\<forall>ss tlg slg. is_tensor2 (length ss) nt tlg \<and> is_tensor2 (length ss) ns slg \<longrightarrow>
            decode_logits (Some tn) (Some sn) ss tlg slg \<noteq> Inl IndexError)
         \<longleftrightarrow> nt \<le> length tn \<and> ns \<le> length sn"
proof
  assume "nt \<le> length tn \<and> ns \<le> length sn"
  then show "\<forall>ss tlg slg. is_tensor2 (length ss) nt tlg \<and> is_tensor2 (length ss) ns slg \<longrightarrow>
            decode_logits (Some tn) (Some sn) ss tlg slg \<noteq> Inl IndexError"
    using assms by (auto simp: decode_logits_ok)
next
  assume all: "\<forall>ss tlg slg. is_tensor2 (length ss) nt tlg \<and> is_tensor2 (length ss) ns slg \<longrightarrow>
            decode_logits (Some tn) (Some sn) ss tlg slg \<noteq> Inl IndexError"
  show "nt \<le> length tn \<and> ns \<le> length sn"
  proof (rule ccontr)
    assume "\<not> (nt \<le> length tn \<and> ns \<le> length sn)"
    from decode_logits_bad [OF assms this, of "[]"] all show False by blast
  qed
qed


text \<open>
  Where the widths of the heads fit the stored lists of names, \<open>predict_sentences\<close>
  returns one element per sentence, in order, with the names at the argmax of each row
  of logits.
\<close>

lemma predict_sentences_in_range:
  fixes L :: "('bb, 'pj, 'h, 'emb) nn_lib" and m ss ids msk
  defines "tlg \<equiv> linear_fwd L (head_topic (heads m))
                   (SentenceEncoder_forward L False (encoder m) ids msk)"
    and "slg \<equiv> linear_fwd L (head_sentiment (heads m))
                   (SentenceEncoder_forward L False (encoder m) ids msk)"
  assumes tok: "tokenize_pt L ss = Inr (ids, msk)"
    and names: "topic_label_names m = Some tn" "sentiment_label_names m = Some sn"
    and tshape: "is_tensor2 (length ss) nt tlg" and sshape: "is_tensor2 (length ss) ns slg"
    and nt: "0 < nt" "nt \<le> length tn" and ns: "0 < ns" "ns \<le> length sn"
  shows "\<exists>ps. snd (predict_sentences L m ss) = Inr ps \<and>
              length ps = length ss \<and>
              (\<forall>i<length ss.
                 ps ! i = \<lparr>sentence = ss ! i,
                           topic = tn ! first_max (tlg ! i),
                           sentiment = sn ! first_max (slg ! i)\<rparr> \<and>
                 first_max (tlg ! i) < nt \<and>
                 (\<forall>k<nt. tlg ! i ! k \<le> tlg ! i ! first_max (tlg ! i)) \<and>
                 first_max (slg ! i) < ns \<and>
                 (\<forall>k<ns. slg ! i ! k \<le> slg ! i ! first_max (slg ! i)))"
proof -
  let ?zs = "zip ss (zip (map first_max tlg) (map first_max slg))"
  let ?ps = "map (\<lambda>(s, t, i). \<lparr>sentence = s, topic = tn ! t, sentiment = sn ! i\<rparr>) ?zs"
  have lt: "length tlg = length ss" and ls: "length slg = length ss"
    using tshape sshape by (simp_all add: is_tensor2_def)
  have fwd: "MultiTaskModel_forward L (m\<lparr>training := False\<rparr>) ids msk ''topic'' = Inr tlg"
      "MultiTaskModel_forward L (m\<lparr>training := False\<rparr>) ids msk ''sentiment'' = Inr slg"
    by (simp_all add: MultiTaskModel_forward_def get_head_def tlg_def slg_def)
  have dec: "decode_logits (Some tn) (Some sn) ss tlg slg = Inr ?ps"
    using tshape sshape nt ns by (rule decode_logits_ok)
  have res: "snd (predict_sentences L m ss) = Inr ?ps"
    using tok names fwd dec by (simp add: predict_sentences_def Let_def)
  have len: "length ?ps = length ss" using lt ls by simp
  have el: "ps_i = \<lparr>sentence = ss ! i, topic = tn ! first_max (tlg ! i),
                     sentiment = sn ! first_max (slg ! i)\<rparr>"
    if "i < length ss" "ps_i = ?ps ! i" for i ps_i
    using that lt ls by simp
  have rows: "first_max (tlg ! i) < nt \<and>
              (\<forall>k<nt. tlg ! i ! k \<le> tlg ! i ! first_max (tlg ! i)) \<and>
              first_max (slg ! i) < ns \<and>
              (\<forall>k<ns. slg ! i ! k \<le> slg ! i ! first_max (slg ! i))"
    if i: "i < length ss" for i
  proof -
    have tl: "length (tlg ! i) = nt" and sl: "length (slg ! i) = ns"
      using tshape sshape i by (simp_all add: is_tensor2_def)
    have "tlg ! i \<noteq> []" "slg ! i \<noteq> []" using tl sl nt ns by auto
    then have "first_max (tlg ! i) < nt" "first_max (slg ! i) < ns"
      using first_max_less [of "tlg ! i"] first_max_less [of "slg ! i"] tl sl by simp_all
    then show ?thesis using first_max_ge [of _ "tlg ! i"] first_max_ge [of _ "slg ! i"] tl sl
      by simp
  qed
  show ?thesis
  proof (intro exI conjI allI impI)
    show "snd (predict_sentences L m ss) = Inr ?ps" by (rule res)
    show "length ?ps = length ss" by (rule len)
  next
    fix i assume i: "i < length ss"
    show "?ps ! i = \<lparr>sentence = ss ! i, topic = tn ! first_max (tlg ! i),
                     sentiment = sn ! first_max (slg ! i)\<rparr>"
      using el [OF i refl] .
    show "first_max (tlg ! i) < nt" using rows [OF i] by simp
    show "first_max (slg ! i) < ns" using rows [OF i] by simp
    fix k
    { assume "k < nt"
      then show "tlg ! i ! k \<le> tlg ! i ! first_max (tlg ! i)" using rows [OF i] by simp }
    { assume "k < ns"
      then show "slg ! i ! k \<le> slg ! i ! first_max (slg ! i)" using rows [OF i] by simp }
  qed
qed


lemma argmax_rows_bad:
  "\<exists>r \<in> set x. r = [] \<Longrightarrow> argmax_rows x = Inl RuntimeError"
proof (induction x)
  case Nil
  then show ?case by simp
next
  case (Cons r rs)
  show ?case
  proof (cases "r = []")
    case True
    then show ?thesis by (simp add: argmax_row_def)
  next
    case False
    then have "\<exists>r \<in> set rs. r = []" using Cons.prems by auto
    then have "argmax_rows rs = Inl RuntimeError" by (rule Cons.IH)
    then show ?thesis using False by (simp add: argmax_row_def)
  qed
qed

lemma decode_logits_IndexError_iff:
  "decode_logits (Some tn) (Some sn) ss tlg slg = Inl IndexError \<longleftrightarrow>
     (\<forall>r \<in> set tlg \<union> set slg. r \<noteq> []) \<and>
     (\<exists>(s, t, i) \<in> set (zip ss (zip (map first_max tlg) (map first_max slg))).
        length tn \<le> t \<or> length sn \<le> i)"
proof (cases "\<forall>r \<in> set tlg \<union> set slg. r \<noteq> []")
  case False
  then have "(\<exists>r \<in> set tlg. r = []) \<or> ((\<forall>r \<in> set tlg. r \<noteq> []) \<and> (\<exists>r \<in> set slg. r = []))"
    by blast
  then have "decode_logits (Some tn) (Some sn) ss tlg slg = Inl RuntimeError"
  proof
    assume "\<exists>r \<in> set tlg. r = []"
    then show ?thesis by (simp add: decode_logits_def argmax_rows_bad)
  next
    assume a: "(\<forall>r \<in> set tlg. r \<noteq> []) \<and> (\<exists>r \<in> set slg. r = [])"
    then have "argmax_rows tlg = Inr (map first_max tlg)" by (simp add: argmax_rows_ok)
    moreover have "argmax_rows slg = Inl RuntimeError" using a by (simp add: argmax_rows_bad)
    ultimately show ?thesis by (simp add: decode_logits_def)
  qed
  then show ?thesis using False by simp
next
  case True
  let ?zs = "zip ss (zip (map first_max tlg) (map first_max slg))"
  have t: "argmax_rows tlg = Inr (map first_max tlg)"
    and s: "argmax_rows slg = Inr (map first_max slg)"
    using True by (simp_all add: argmax_rows_ok)
  have dec: "decode_logits (Some tn) (Some sn) ss tlg slg = label_predictions (Some tn) (Some sn) ?zs"
    by (simp add: decode_logits_def t s)
  show ?thesis
  proof (cases "\<exists>(s, t, i) \<in> set ?zs. length tn \<le> t \<or> length sn \<le> i")
    case bad: True
    then obtain s t i where "(s, t, i) \<in> set ?zs" "\<not> (t < length tn \<and> i < length sn)"
      by (auto simp: not_less)
    then have "label_predictions (Some tn) (Some sn) ?zs = Inl IndexError"
      by (rule label_predictions_bad)
    then show ?thesis using True bad dec by simp
  next
    case good: False
    then have "\<forall>(s, t, i) \<in> set ?zs. t < length tn \<and> i < length sn"
      by (auto simp: not_le)
    then have "label_predictions (Some tn) (Some sn) ?zs =
        Inr (map (\<lambda>(s, t, i). \<lparr>sentence = s, topic = tn ! t, sentiment = sn ! i\<rparr>) ?zs)"
      by (rule label_predictions_ok)
    then show ?thesis using good dec by simp
  qed
qed


section \<open>Facts about the metrics\<close>

lemma count_zip_conv_card:
  assumes "length xs = length ys"
  shows "length (filter Q (zip xs ys)) = card {i. i < length xs \<and> Q (xs ! i, ys ! i)}"
proof -
  have "{i. i < length (zip xs ys) \<and> Q (zip xs ys ! i)} = {i. i < length xs \<and> Q (xs ! i, ys ! i)}"
    using assms by auto
  then show ?thesis by (simp add: length_filter_conv_card)
qed

lemma true_positives_card:
  assumes "length y_true = length y_pred"
  shows "true_positives c y_true y_pred =
     card {i. i < length y_true \<and> y_true ! i = c \<and> y_pred ! i = c}"
  unfolding true_positives_def count_zip_conv_card [OF assms] by simp

lemma n_predicted_card: "n_predicted c y_pred = card {i. i < length y_pred \<and> y_pred ! i = c}"
  by (simp add: n_predicted_def length_filter_conv_card)

lemma support_card: "support c y_true = card {i. i < length y_true \<and> y_true ! i = c}"
  by (simp add: support_def length_filter_conv_card)

lemma accuracy_card:
  assumes "length y_true = length y_pred"
  shows "accuracy_score y_true y_pred =
     real (card {i. i < length y_true \<and> y_pred ! i = y_true ! i}) / real (length y_true)"
proof -
  have "{i. i < length y_true \<and> y_true ! i = y_pred ! i} =
        {i. i < length y_true \<and> y_pred ! i = y_true ! i}" by auto
  then show ?thesis
    unfolding accuracy_score_def count_zip_conv_card [OF assms] by simp
qed

lemma macro_average_sum:
  "macro_average score y_true y_pred =
     (\<Sum>c \<in> set y_true \<union> set y_pred. score c) / real (card (set y_true \<union> set y_pred))"
proof -
  let ?u = "unique_labels y_true y_pred"
  have d: "distinct ?u" and s: "set ?u = set y_true \<union> set y_pred"
    by (simp_all add: unique_labels_def)
  have "sum_list (map score ?u) = (\<Sum>c \<in> set ?u. score c)"
    using d by (rule sum_list_distinct_conv_sum_set)
  moreover have "length ?u = card (set ?u)" using d by (simp add: distinct_card)
  ultimately show ?thesis by (simp add: macro_average_def s)
qed

lemma support_zero_tp:
  assumes "length y_true = length y_pred" "support c y_true = 0"
  shows "true_positives c y_true y_pred = 0"
proof -
  have "filter (\<lambda>t. t = c) y_true = []" using assms(2) by (simp add: support_def)
  then have "c \<notin> set y_true" by (auto simp: filter_empty_conv)
  then have "filter (\<lambda>(t, p). t = c \<and> p = c) (zip y_true y_pred) = []"
    by (auto simp: filter_empty_conv dest: set_zip_leftD)
  then show ?thesis by (simp add: true_positives_def)
qed


section \<open>Facts about the training loop\<close>

lemma ceil_div_step:
  fixes m n :: nat
  assumes "0 < n" "0 < m"
  shows "Suc (((m - n) + n - 1) div n) = (m + n - 1) div n"
proof -
  have eq: "m + n - 1 = (m - 1) + n" using assms by simp
  have "((m - 1) + n) div n = Suc ((m - 1) div n)" using assms(1) by simp
  then have rhs: "(m + n - 1) div n = Suc ((m - 1) div n)" by (simp only: eq)
  show ?thesis
  proof (cases "n \<le> m")
    case True
    then have "(m - n) + n - 1 = m - 1" by simp
    then show ?thesis using rhs by simp
  next
    case False
    then have "(m - n) + n - 1 = n - 1" by simp
    moreover have "(n - 1) div n = 0" using assms by simp
    moreover have "(m - 1) div n = 0" using False assms by simp
    ultimately show ?thesis using rhs by simp
  qed
qed

lemma length_chunks: "length (chunks n xs) = (length xs + n - 1) div n"
proof (induction n xs rule: chunks.induct)
  case (1 n xs)
  show ?case
  proof (cases "n = 0 \<or> xs = []")
    case True
    then have "chunks n xs = []" by (subst chunks.simps) simp
    then show ?thesis using True by (cases "n = 0") auto
  next
    case False
    then have n: "0 < n" and xs: "0 < length xs" by auto
    have "length (chunks n (drop n xs)) = (length (drop n xs) + n - 1) div n"
      using "1.IH" False by simp
    moreover have "chunks n xs = take n xs # chunks n (drop n xs)"
      using False by (subst chunks.simps) simp
    ultimately have "length (chunks n xs) = Suc (((length xs - n) + n - 1) div n)"
      by simp
    then show ?thesis using ceil_div_step [OF n xs] by simp
  qed
qed

lemma length_iter_loader:
  assumes "\<forall>g rows. length (fst (shuffle_rows TL g rows)) = length rows"
  shows "length (fst (iter_loader TL g l)) = len_loader l"
proof (cases "shuffle l")
  case True
  obtain rows g' where sr: "shuffle_rows TL g (dataset l) = (rows, g')"
    by (cases "shuffle_rows TL g (dataset l)") auto
  have "length (fst (shuffle_rows TL g (dataset l))) = length (dataset l)"
    using assms by blast
  then have "length rows = length (dataset l)" using sr by simp
  then show ?thesis using True sr by (simp add: iter_loader_def len_loader_def length_chunks)
next
  case False
  then show ?thesis by (simp add: iter_loader_def len_loader_def length_chunks)
qed

lemma apply_step_rng [simp]: "apply_step TL t (s\<lparr>rng := g\<rparr>) b = (apply_step TL t s b)\<lparr>rng := g\<rparr>"
  by (simp add: apply_step_def split: prod.splits)

lemma apply_step_mp_rows [simp]:
  "apply_step TL t (s\<lparr>mp_rows := r\<rparr>) b = (apply_step TL t s b)\<lparr>mp_rows := r\<rparr>"
  by (simp add: apply_step_def split: prod.splits)

lemma apply_step_training [simp]:
  "training (model (apply_step TL t s b)) = training (model s)"
  by (simp add: apply_step_def split: prod.splits)

lemma apply_step_counts [simp]:
  "optim_steps (apply_step TL t s b) = Suc (optim_steps s)"
  "sched_steps (sched (apply_step TL t s b)) = Suc (sched_steps (sched s))"
  "num_training_steps (sched (apply_step TL t s b)) = num_training_steps (sched s)"
  "num_warmup_steps (sched (apply_step TL t s b)) = num_warmup_steps (sched s)"
  by (simp_all add: apply_step_def split: prod.splits)

lemma steps_rng:
  "foldl (\<lambda>st (t, b). apply_step TL t st b) (s\<lparr>rng := g\<rparr>) tbs =
     (foldl (\<lambda>st (t, b). apply_step TL t st b) s tbs)\<lparr>rng := g\<rparr>"
  by (induction tbs arbitrary: s) (auto split: prod.splits)

lemma steps_mp_rows:
  "foldl (\<lambda>st (t, b). apply_step TL t st b) (s\<lparr>mp_rows := r\<rparr>) tbs =
     (foldl (\<lambda>st (t, b). apply_step TL t st b) s tbs)\<lparr>mp_rows := r\<rparr>"
  by (induction tbs arbitrary: s) (auto split: prod.splits)

lemma steps_training:
  "training (model (foldl (\<lambda>st (t, b). apply_step TL t st b) s tbs)) = training (model s)"
  by (induction tbs arbitrary: s) (auto split: prod.splits)

lemma steps_counts:
  "optim_steps (foldl (\<lambda>st (t, b). apply_step TL t st b) s tbs) = optim_steps s + length tbs"
  "sched_steps (sched (foldl (\<lambda>st (t, b). apply_step TL t st b) s tbs)) =
     sched_steps (sched s) + length tbs"
  "num_training_steps (sched (foldl (\<lambda>st (t, b). apply_step TL t st b) s tbs)) =
     num_training_steps (sched s)"
  "num_warmup_steps (sched (foldl (\<lambda>st (t, b). apply_step TL t st b) s tbs)) =
     num_warmup_steps (sched s)"
  by (induction tbs arbitrary: s; auto split: prod.splits)+

lemma train_batch_Inr:
  assumes "train_batch NL TL t (s, a) b = Inr (s', a')"
  shows "s' = apply_step TL t s b"
  using assms by (auto simp: train_batch_def Let_def split: sum.splits prod.splits)

lemma train_batches_Inr:
  assumes "train_batches NL TL t (s, a) bs = Inr (s', a')"
  shows "s' = foldl (\<lambda>st (t, b). apply_step TL t st b) s (map (Pair t) bs)"
  using assms
proof (induction bs arbitrary: s a)
  case Nil
  then show ?case by simp
next
  case (Cons b bs)
  from Cons.prems obtain s1 a1 where
    b: "train_batch NL TL t (s, a) b = Inr (s1, a1)" and
    r: "train_batches NL TL t (s1, a1) bs = Inr (s', a')"
    by (auto split: sum.splits)
  have "s1 = apply_step TL t s b" using b by (rule train_batch_Inr)
  then show ?case using Cons.IH [OF r] by simp
qed

lemma train_task_Inr:
  assumes "train_task NL TL loaders e s t = Inr s'" "loaders (''train_'' @ t) = Some l"
  shows "\<exists>rows. s' = (foldl (\<lambda>st (t, b). apply_step TL t st b) s
                          (map (Pair t) (fst (iter_loader TL (rng s) l))))
                     \<lparr>rng := snd (iter_loader TL (rng s) l), mp_rows := rows\<rparr>"
proof -
  obtain bs g' where it: "iter_loader TL (rng s) l = (bs, g')"
    by (cases "iter_loader TL (rng s) l") auto
  from assms it obtain s1 a1 where
    tb: "train_batches NL TL t (s\<lparr>rng := g'\<rparr>, 0, [], []) bs = Inr (s1, a1)" and
    s': "\<exists>rows. s' = s1\<lparr>mp_rows := rows\<rparr>"
    by (auto simp: train_task_def split: sum.splits prod.splits if_splits)
  have "s1 = foldl (\<lambda>st (t, b). apply_step TL t st b) (s\<lparr>rng := g'\<rparr>) (map (Pair t) bs)"
    using tb by (rule train_batches_Inr)
  then show ?thesis using s' it by (auto simp: steps_rng)
qed

lemma train_epoch_Inr:
  assumes "train_epoch NL TL loaders s e = Inr s'"
    and lt: "loaders ''train_topic'' = Some lt" and ls: "loaders ''train_sentiment'' = Some ls"
  shows "\<exists>rows g'. s' = (foldl (\<lambda>st (t, b). apply_step TL t st b)
                             (s\<lparr>model := (model s)\<lparr>training := True\<rparr>\<rparr>)
                             (batch_order TL lt ls (rng s) 1))
                         \<lparr>rng := g', mp_rows := rows\<rparr>
                   \<and> batch_order TL lt ls (rng s) (Suc n) =
                       batch_order TL lt ls (rng s) 1 @ batch_order TL lt ls g' n"
proof -
  let ?s0 = "s\<lparr>model := (model s)\<lparr>training := True\<rparr>\<rparr>"
  let ?F = "foldl (\<lambda>st (t, b). apply_step TL t st b)"
  obtain bt g1 where it: "iter_loader TL (rng s) lt = (bt, g1)"
    by (cases "iter_loader TL (rng s) lt") auto
  obtain bs g2 where isl: "iter_loader TL g1 ls = (bs, g2)"
    by (cases "iter_loader TL g1 ls") auto
  from assms(1) obtain s1 where
    t1: "train_task NL TL loaders e ?s0 ''topic'' = Inr s1" and
    t2: "train_task NL TL loaders e s1 ''sentiment'' = Inr s'"
    by (auto simp: train_epoch_def split: sum.splits)
  from train_task_Inr [OF t1] lt it obtain r1 where
    s1: "s1 = (?F ?s0 (map (Pair ''topic'') bt))\<lparr>rng := g1, mp_rows := r1\<rparr>"
    by auto
  have rng1: "rng s1 = g1" using s1 by simp
  from train_task_Inr [OF t2] ls isl rng1 obtain r2 where
    s2: "s' = (?F s1 (map (Pair ''sentiment'') bs))\<lparr>rng := g2, mp_rows := r2\<rparr>"
    by auto
  have "s' = (?F ?s0 (map (Pair ''topic'') bt @ map (Pair ''sentiment'') bs))
               \<lparr>rng := g2, mp_rows := r2\<rparr>"
    unfolding s2 s1 by (simp add: steps_rng steps_mp_rows)
  moreover have "batch_order TL lt ls (rng s) 1 =
      map (Pair ''topic'') bt @ map (Pair ''sentiment'') bs"
    using it isl by (simp add: numeral_eq_Suc)
  moreover have "batch_order TL lt ls (rng s) (Suc n) =
      batch_order TL lt ls (rng s) 1 @ batch_order TL lt ls g2 n"
    using it isl by simp
  ultimately show ?thesis by metis
qed

lemma train_epochs_Inr:
  assumes "train_epochs NL TL loaders s es = Inr s'" "training (model s)"
    and lt: "loaders ''train_topic'' = Some lt" and ls: "loaders ''train_sentiment'' = Some ls"
  shows "\<exists>rows g'. s' = (foldl (\<lambda>st (t, b). apply_step TL t st b) s
                             (batch_order TL lt ls (rng s) (length es)))
                         \<lparr>rng := g', mp_rows := rows\<rparr>"
  using assms(1,2)
proof (induction es arbitrary: s)
  case Nil
  then have "s' = s\<lparr>rng := rng s, mp_rows := mp_rows s\<rparr>" by simp
  then show ?case by (metis batch_order.simps(1) foldl_Nil list.size(3))
next
  case (Cons e es)
  let ?F = "foldl (\<lambda>st (t, b). apply_step TL t st b)"
  from Cons.prems(1) obtain s1 where
    e1: "train_epoch NL TL loaders s e = Inr s1" and
    r: "train_epochs NL TL loaders s1 es = Inr s'"
    by (auto split: sum.splits)
  have same: "s\<lparr>model := (model s)\<lparr>training := True\<rparr>\<rparr> = s"
    using Cons.prems(2) by simp
  from train_epoch_Inr [OF e1 lt ls, of "length es"] same obtain r1 g1 where
    s1: "s1 = (?F s (batch_order TL lt ls (rng s) 1))\<lparr>rng := g1, mp_rows := r1\<rparr>" and
    bo: "batch_order TL lt ls (rng s) (Suc (length es)) =
           batch_order TL lt ls (rng s) 1 @ batch_order TL lt ls g1 (length es)"
    by auto
  have tr1: "training (model s1)" using s1 Cons.prems(2) by (simp add: steps_training)
  have rng1: "rng s1 = g1" using s1 by simp
  from Cons.IH [OF r tr1] rng1 obtain r2 g2 where
    s': "s' = (?F s1 (batch_order TL lt ls g1 (length es)))\<lparr>rng := g2, mp_rows := r2\<rparr>"
    by auto
  have "s' = (?F s (batch_order TL lt ls (rng s) (Suc (length es))))\<lparr>rng := g2, mp_rows := r2\<rparr>"
    unfolding s' s1 bo by (simp add: steps_rng steps_mp_rows)
  then show ?case by auto
qed

lemma train_epoch_train_idem:
  "train_epoch NL TL loaders (s\<lparr>model := (model s)\<lparr>training := True\<rparr>\<rparr>) e =
   train_epoch NL TL loaders s e"
  by (simp add: train_epoch_def)

lemma train_func_Inr:
  assumes "train_func NL TL m loaders g = Inr s"
    and lt: "loaders ''train_topic'' = Some lt" and ls: "loaders ''train_sentiment'' = Some ls"
  shows "\<exists>rows g'. s = (foldl (\<lambda>st (t, b). apply_step TL t st b)
            ((init_trainer TL m (EPOCHS * (len_loader lt + len_loader ls)) g)
               \<lparr>model := m\<lparr>training := True\<rparr>\<rparr>)
            (batch_order TL lt ls g EPOCHS))\<lparr>rng := g', mp_rows := rows\<rparr>"
proof -
  let ?i = "init_trainer TL m (EPOCHS * (len_loader lt + len_loader ls)) g"
  let ?i' = "?i\<lparr>model := m\<lparr>training := True\<rparr>\<rparr>"
  have es: "[0..<EPOCHS] = 0 # [1..<EPOCHS]" by (simp add: EPOCHS_def upt_rec)
  have mi: "model ?i = m" "rng ?i = g" by (simp_all add: init_trainer_def)
  have "train_epochs NL TL loaders ?i [0..<EPOCHS] = Inr s"
    using assms by (simp add: train_func_def Let_def)
  then have "train_epochs NL TL loaders ?i' [0..<EPOCHS] = Inr s"
    unfolding es using train_epoch_train_idem [of NL TL loaders ?i 0] mi by simp
  moreover have "training (model ?i')" by simp
  ultimately have "\<exists>rows g'. s = (foldl (\<lambda>st (t, b). apply_step TL t st b) ?i'
        (batch_order TL lt ls (rng ?i') (length [0..<EPOCHS])))\<lparr>rng := g', mp_rows := rows\<rparr>"
    using lt ls by (rule train_epochs_Inr)
  then show ?thesis using mi by simp
qed

lemma length_batch_order:
  assumes "\<forall>g rows. length (fst (shuffle_rows TL g rows)) = length rows"
  shows "length (batch_order TL lt ls g n) = n * (len_loader lt + len_loader ls)"
proof (induction n arbitrary: g)
  case 0
  then show ?case by simp
next
  case (Suc n)
  obtain bt g1 where it: "iter_loader TL g lt = (bt, g1)"
    by (cases "iter_loader TL g lt") auto
  obtain bs g2 where isl: "iter_loader TL g1 ls = (bs, g2)"
    by (cases "iter_loader TL g1 ls") auto
  have "length bt = len_loader lt" using length_iter_loader [OF assms, of g lt] it by simp
  moreover have "length bs = len_loader ls" using length_iter_loader [OF assms, of g1 ls] isl by simp
  ultimately show ?case using it isl Suc.IH [of g2] by simp
qed

lemma forward_task_Inr:
  assumes "t = ''topic'' \<or> t = ''sentiment''"
  shows "\<exists>h. MultiTaskModel_forward NL m ids msk t =
           Inr (linear_fwd NL h (SentenceEncoder_forward NL (training m) (encoder m) ids msk))"
  using assms by (auto simp: MultiTaskModel_forward_def get_head_def)

lemma train_batch_ok:
  assumes "t = ''topic'' \<or> t = ''sentiment''" "\<forall>h e. [] \<notin> set (linear_fwd NL h e)"
  shows "\<exists>st'. train_batch NL TL t st b = Inr st'"
proof -
  obtain s tot ps ls where st: "st = (s, tot, ps, ls)" by (rule prod_cases4)
  from forward_task_Inr [OF assms(1), of NL "model s" "map input_ids b" "map attention_mask b"]
  obtain h where
    f: "MultiTaskModel_forward NL (model s) (map input_ids b) (map attention_mask b) t =
          Inr (linear_fwd NL h (SentenceEncoder_forward NL (training (model s)) (encoder (model s))
                 (map input_ids b) (map attention_mask b)))" by blast
  let ?lg = "linear_fwd NL h (SentenceEncoder_forward NL (training (model s)) (encoder (model s))
                 (map input_ids b) (map attention_mask b))"
  have "\<forall>r \<in> set ?lg. r \<noteq> []" using assms(2) by metis
  then have "argmax_rows ?lg = Inr (map first_max ?lg)" by (rule argmax_rows_ok)
  then show ?thesis using f st by (simp add: train_batch_def Let_def)
qed

lemma train_batches_ok:
  assumes "t = ''topic'' \<or> t = ''sentiment''" "\<forall>h e. [] \<notin> set (linear_fwd NL h e)"
  shows "\<exists>st'. train_batches NL TL t st bs = Inr st'"
proof (induction bs arbitrary: st)
  case Nil
  show ?case by (rule exI [of _ st]) simp
next
  case (Cons b bs)
  from train_batch_ok [OF assms] obtain st1 where "train_batch NL TL t st b = Inr st1" by blast
  then show ?case using Cons.IH [of st1] by simp
qed

lemma train_task_ok:
  assumes "t = ''topic'' \<or> t = ''sentiment''" "\<forall>h e. [] \<notin> set (linear_fwd NL h e)"
    and "loaders (''train_'' @ t) = Some l" "0 < len_loader l"
  shows "\<exists>s'. train_task NL TL loaders e s t = Inr s'"
proof -
  obtain bs g' where it: "iter_loader TL (rng s) l = (bs, g')"
    by (cases "iter_loader TL (rng s) l") auto
  from train_batches_ok [OF assms(1,2)] obtain st' where
    "train_batches NL TL t (s\<lparr>rng := g'\<rparr>, 0, [], []) bs = Inr st'" by blast
  moreover obtain s1 tot ps ls where "st' = (s1, tot, ps, ls)" by (rule prod_cases4)
  ultimately show ?thesis using assms(3,4) it
    by (auto simp: train_task_def)
qed

lemma train_epoch_ok:
  assumes "\<forall>h e. [] \<notin> set (linear_fwd NL h e)"
    and "loaders ''train_topic'' = Some lt" "0 < len_loader lt"
    and "loaders ''train_sentiment'' = Some ls" "0 < len_loader ls"
  shows "\<exists>s'. train_epoch NL TL loaders s e = Inr s'"
proof -
  let ?s0 = "s\<lparr>model := (model s)\<lparr>training := True\<rparr>\<rparr>"
  from train_task_ok [of "''topic''" NL loaders lt TL e ?s0] assms obtain s1 where
    t1: "train_task NL TL loaders e ?s0 ''topic'' = Inr s1" by auto
  from train_task_ok [of "''sentiment''" NL loaders ls TL e s1] assms obtain s2 where
    t2: "train_task NL TL loaders e s1 ''sentiment'' = Inr s2" by auto
  show ?thesis using t1 t2 by (simp add: train_epoch_def)
qed

lemma train_epochs_ok:
  assumes "\<forall>h e. [] \<notin> set (linear_fwd NL h e)"
    and "loaders ''train_topic'' = Some lt" "0 < len_loader lt"
    and "loaders ''train_sentiment'' = Some ls" "0 < len_loader ls"
  shows "\<exists>s'. train_epochs NL TL loaders s es = Inr s'"
proof (induction es arbitrary: s)
  case Nil
  show ?case by (rule exI [of _ s]) simp
next
  case (Cons e es)
  from train_epoch_ok [OF assms] obtain s1 where "train_epoch NL TL loaders s e = Inr s1"
    by blast
  then show ?case using Cons.IH [of s1] by simp
qed

lemma train_func_ok:
  assumes "\<forall>h e. [] \<notin> set (linear_fwd NL h e)"
    and "loaders ''train_topic'' = Some lt" "0 < len_loader lt"
    and "loaders ''train_sentiment'' = Some ls" "0 < len_loader ls"
  shows "\<exists>s. train_func NL TL m loaders g = Inr s"
  using train_epochs_ok [OF assms] assms(2,4) by (simp add: train_func_def Let_def)

lemma warmup_floor: "nat \<lfloor>(1 / 10) * real n\<rfloor> = n div 10"
proof -
  have "(1 / 10) * real n = real n / real 10" by simp
  then have "\<lfloor>(1 / 10) * real n\<rfloor> = \<lfloor>real n / real 10\<rfloor>" by simp
  also have "\<dots> = int (n div 10)" by (rule floor_divide_of_nat_eq)
  finally show ?thesis by simp
qed

lemma tasks_batch_order:
  assumes "\<forall>g rows. length (fst (shuffle_rows TL g rows)) = length rows"
  shows "map fst (batch_order TL lt ls g n) =
     concat (replicate n (replicate (len_loader lt) ''topic'' @
                          replicate (len_loader ls) ''sentiment''))"
proof (induction n arbitrary: g)
  case 0
  then show ?case by simp
next
  case (Suc n)
  obtain bt g1 where it: "iter_loader TL g lt = (bt, g1)"
    by (cases "iter_loader TL g lt") auto
  obtain bs g2 where isl: "iter_loader TL g1 ls = (bs, g2)"
    by (cases "iter_loader TL g1 ls") auto
  have "length bt = len_loader lt" using length_iter_loader [OF assms, of g lt] it by simp
  moreover have "length bs = len_loader ls" using length_iter_loader [OF assms, of g1 ls] isl by simp
  ultimately show ?case using it isl Suc.IH [of g2]
    by (simp add: comp_def map_replicate_const)
qed

lemma init_trainer_sched:
  "sched (init_trainer TL m n g) =
     \<lparr>num_warmup_steps = n div 10, num_training_steps = n, sched_steps = 0\<rparr>"
  unfolding init_trainer_def get_scheduler_def warmup_floor by simp

lemma init_trainer_optim_steps: "optim_steps (init_trainer TL m n g) = 0"
  by (simp add: init_trainer_def)

lemma toy_linear_nonempty: "\<forall>h e. [] \<notin> set (linear_fwd toy_nn h e)"
  by (auto simp: toy_nn_def)

lemma toy_shuffle_length: "\<forall>g rows. length (fst (shuffle_rows toy_train g rows)) = length rows"
  by (simp add: toy_train_def)

lemma toy_loaders_train:
  "toy_loaders ''train_topic'' = Some toy_train_topic"
  "toy_loaders ''train_sentiment'' = Some toy_train_sentiment"
  by code_simp+

lemma toy_len_loader:
  "len_loader toy_train_topic = 2" "len_loader toy_train_sentiment = 2"
  by (simp_all add: len_loader_def toy_train_topic_def toy_train_sentiment_def toy_ag_def
      toy_sst_def BATCH_SIZE_def)


section \<open>Mean pooling in the encoder\<close>







section \<open>The forward pass of the model\<close>

text \<open>
  C6: for either task the forward pass of the model is the task's linear head applied
  to the output of the sentence encoder, the same encoder with the same parameters and
  inputs for both tasks; any other task name is a \<open>KeyError\<close>.  The logits of a task do
  not depend on the other task's head.
\<close>

theorem C6_forward_shared_encoder:
  "MultiTaskModel_forward L m ids msk t =
     (if t = ''topic''
      then Inr (linear_fwd L (head_topic (heads m))
                  (SentenceEncoder_forward L (training m) (encoder m) ids msk))
      else if t = ''sentiment''
      then Inr (linear_fwd L (head_sentiment (heads m))
                  (SentenceEncoder_forward L (training m) (encoder m) ids msk))
      else Inl KeyError) \<and>
   MultiTaskModel_forward L (m\<lparr>heads := (heads m)\<lparr>head_sentiment := h'\<rparr>\<rparr>) ids msk ''topic'' =
     MultiTaskModel_forward L m ids msk ''topic'' \<and>
   MultiTaskModel_forward L (m\<lparr>heads := (heads m)\<lparr>head_topic := h'\<rparr>\<rparr>) ids msk ''sentiment'' =
     MultiTaskModel_forward L m ids msk ''sentiment''"
  by (simp add: MultiTaskModel_forward_def get_head_def)

text \<open>
  The two forward passes of the small instance share the encoder output \<open>[[3, 1]]\<close>.
\<close>

theorem C6_forward_shared_encoder_witness:
  "MultiTaskModel_forward toy_nn toy_model [[2, 4, 9]] [[1, 1, 0]] ''topic'' =
     Inr [[1, 4, 7, 10]] \<and>
   MultiTaskModel_forward toy_nn toy_model [[2, 4, 9]] [[1, 1, 0]] ''sentiment'' =
     Inr [[1, 4]] \<and>
   SentenceEncoder_forward toy_nn True (encoder toy_model) [[2, 4, 9]] [[1, 1, 0]] = [[3, 1]]"
proof -
  have e: "SentenceEncoder_forward toy_nn True (encoder toy_model) [[2, 4, 9]] [[1, 1, 0]] = [[3, 1]]"
    by code_simp
  have t: "training toy_model = True"
    and ht: "head_topic (heads toy_model) = [[0, 1], [1, 1], [2, 1], [3, 1]]"
    and hs: "head_sentiment (heads toy_model) = [[0, 1], [1, 1]]"
    by (simp_all add: toy_model_def MultiTaskModel_init_def toy_nn_def upt_rec numeral_eq_Suc)
  have lin: "linear_fwd toy_nn [[0, 1], [1, 1], [2, 1], [3, 1]] [[3, 1]] = [[1, 4, 7, 10]]"
      "linear_fwd toy_nn [[0, 1], [1, 1]] [[3, 1]] = [[1, 4]]"
    by (simp_all add: toy_nn_def)
  from C6_forward_shared_encoder [of toy_nn toy_model "[[2, 4, 9]]" "[[1, 1, 0]]" "''topic''"]
       C6_forward_shared_encoder [of toy_nn toy_model "[[2, 4, 9]]" "[[1, 1, 0]]" "''sentiment''"]
  show ?thesis by (simp add: e t ht hs lin)
qed



section \<open>Inference\<close>


text \<open>
  C9 (as stated, refuted): for a single input the lookup can be in range although a
  head is wider than its list of names.  The topic logits \<open>[1, 0, 0, 0, 0]\<close> have
  width 5, more than the 4 topic names, and their argmax 0 is in range.
\<close>

theorem C9_in_range_with_wider_head:
  "decode_logits (Some topic_names) (Some sent_names) [[104, 105]] [[1, 0, 0, 0, 0]] [[0, 1]] =
     Inr [\<lparr>sentence = [104, 105], topic = ''World'', sentiment = ''Positive''\<rparr>] \<and>
   \<not> length [1, 0, 0, 0, 0 :: real] \<le> length topic_names"
  by (simp add: decode_logits_def argmax_row_def topic_names_def sent_names_def)

text \<open>
  C9 (amended): \<open>predict_sentences\<close> looks the argmax of every row of each head's
  logits up in the model's stored list of names (4 topic names and 2 sentiment names as
  \<open>prepare_loaders\<close> hardcodes them) without a check.  For an input the lookup raises
  \<open>IndexError\<close> exactly when some argmax id is not below the length of its list.  For
  heads of positive widths the lookup is in range for every list of sentences and all
  logits of those widths exactly when either width is at most the length of its list.
\<close>

theorem C9_label_index_in_range:
  fixes L :: "('bb, 'pj, 'h, 'emb) nn_lib"
  shows "(decode_logits (Some tn) (Some sn) ss tlg slg = Inl IndexError \<longleftrightarrow>
            (\<forall>r \<in> set tlg \<union> set slg. r \<noteq> []) \<and>
            (\<exists>(s, t, i) \<in> set (zip ss (zip (map first_max tlg) (map first_max slg))).
               length tn \<le> t \<or> length sn \<le> i)) \<and>
         (0 < nt \<and> 0 < ns \<longrightarrow>
            ((\<forall>ss tlg slg.
                is_tensor2 (length ss) nt tlg \<and> is_tensor2 (length ss) ns slg \<longrightarrow>
                decode_logits (Some tn) (Some sn) ss tlg slg \<noteq> Inl IndexError)
             \<longleftrightarrow> nt \<le> length tn \<and> ns \<le> length sn)) \<and>
         (tokenize_pt L sents = Inr (ids, msk) \<longrightarrow>
            snd (predict_sentences L m sents) =
              decode_logits (topic_label_names m) (sentiment_label_names m) sents
                (linear_fwd L (head_topic (heads m))
                   (SentenceEncoder_forward L False (encoder m) ids msk))
                (linear_fwd L (head_sentiment (heads m))
                   (SentenceEncoder_forward L False (encoder m) ids msk))) \<and>
         length topic_names = 4 \<and> length sent_names = 2"
proof (intro conjI impI)
  show "decode_logits (Some tn) (Some sn) ss tlg slg = Inl IndexError \<longleftrightarrow>
            (\<forall>r \<in> set tlg \<union> set slg. r \<noteq> []) \<and>
            (\<exists>(s, t, i) \<in> set (zip ss (zip (map first_max tlg) (map first_max slg))).
               length tn \<le> t \<or> length sn \<le> i)"
    by (rule decode_logits_IndexError_iff)
next
  assume "0 < nt \<and> 0 < ns"
  then show "(\<forall>ss tlg slg.
                is_tensor2 (length ss) nt tlg \<and> is_tensor2 (length ss) ns slg \<longrightarrow>
                decode_logits (Some tn) (Some sn) ss tlg slg \<noteq> Inl IndexError)
             \<longleftrightarrow> nt \<le> length tn \<and> ns \<le> length sn"
    using index_in_range_iff [of nt ns tn sn] by blast
next
  assume "tokenize_pt L sents = Inr (ids, msk)"
  then show "snd (predict_sentences L m sents) =
              decode_logits (topic_label_names m) (sentiment_label_names m) sents
                (linear_fwd L (head_topic (heads m))
                   (SentenceEncoder_forward L False (encoder m) ids msk))
                (linear_fwd L (head_sentiment (heads m))
                   (SentenceEncoder_forward L False (encoder m) ids msk))"
    by (simp add: predict_sentences_def Let_def MultiTaskModel_forward_def get_head_def)
next
  show "length topic_names = 4" by (simp add: topic_names_def)
  show "length sent_names = 2" by (simp add: sent_names_def)
qed

text \<open>
  Topic logits of width 5 with the argmax at index 4, and at index 0.
\<close>

theorem C9_label_index_in_range_witness:
  "decode_logits (Some topic_names) (Some sent_names) [[1, 2, 3]] [[1, 3, 5, 7, 9]] [[1, 3]] =
     Inl IndexError \<and>
   decode_logits (Some topic_names) (Some sent_names) [[1, 2, 3]] [[9, 7, 5, 3, 1]] [[1, 3]] \<noteq>
     Inl IndexError"
proof -
  note iff = C9_label_index_in_range [THEN conjunct1]
  have a: "decode_logits (Some topic_names) (Some sent_names) [[1, 2, 3]] [[1, 3, 5, 7, 9]] [[1, 3]] =
     Inl IndexError"
    by (subst iff) (simp add: topic_names_def sent_names_def)
  have b: "decode_logits (Some topic_names) (Some sent_names) [[1, 2, 3]] [[9, 7, 5, 3, 1]] [[1, 3]] \<noteq>
     Inl IndexError"
    by (subst iff) (simp add: topic_names_def sent_names_def)
  show ?thesis using a b by simp
qed


section \<open>Macro metrics\<close>

text \<open>
  C5: for label and prediction lists of equal, nonzero length, \<open>macro_metrics\<close>
  returns the accuracy, the fraction of positions where the prediction equals the label,
  and the precision, recall and F1 computed per class (with 0 where a denominator is
  zero) and averaged, unweighted, over the classes that occur among the labels or the
  predictions.  A class without support contributes 0 to each average.
\<close>

theorem C5_macro_metrics:
  fixes y_true y_pred :: "int list"
  defines "n \<equiv> length y_true"
    and "classes \<equiv> set y_true \<union> set y_pred"
  defines "ntp \<equiv> \<lambda>c. card {i. i < n \<and> y_true ! i = c \<and> y_pred ! i = c}"
    and "npred \<equiv> \<lambda>c. card {i. i < n \<and> y_pred ! i = c}"
    and "supp \<equiv> \<lambda>c. card {i. i < n \<and> y_true ! i = c}"
  defines "P \<equiv> \<lambda>c. if npred c = 0 then 0 else real (ntp c) / real (npred c)"
    and "R \<equiv> \<lambda>c. if supp c = 0 then 0 else real (ntp c) / real (supp c)"
  defines "F \<equiv> \<lambda>c. if P c + R c = 0 then 0 else 2 * P c * R c / (P c + R c)"
  assumes len: "length y_true = length y_pred" and ne: "y_true \<noteq> []"
  shows "0 < n \<and> 0 < card classes \<and>
         acc (macro_metrics y_true y_pred) =
           real (card {i. i < n \<and> y_pred ! i = y_true ! i}) / real n \<and>
         prec (macro_metrics y_true y_pred) = (\<Sum>c \<in> classes. P c) / real (card classes) \<and>
         rec (macro_metrics y_true y_pred) = (\<Sum>c \<in> classes. R c) / real (card classes) \<and>
         f1 (macro_metrics y_true y_pred) = (\<Sum>c \<in> classes. F c) / real (card classes) \<and>
         (\<forall>c. supp c = 0 \<longrightarrow> P c = 0 \<and> R c = 0 \<and> F c = 0)"
proof -
  have tp: "real (true_positives c y_true y_pred) = real (ntp c)" for c
    by (simp add: true_positives_card [OF len] ntp_def n_def)
  have pr: "real (n_predicted c y_pred) = real (npred c)" for c
    using len by (simp add: n_predicted_card npred_def n_def)
  have su: "real (support c y_true) = real (supp c)" for c
    by (simp add: support_card supp_def n_def)
  have p: "class_precision 0 y_true y_pred c = P c" for c
    by (simp add: class_precision_def ratio_def tp pr P_def)
  have r: "class_recall 0 y_true y_pred c = R c" for c
    by (simp add: class_recall_def ratio_def tp su R_def)
  have f: "class_f1 0 y_true y_pred c = F c" for c
    by (simp add: class_f1_def Let_def ratio_def p r F_def)
  have zero: "P c = 0 \<and> R c = 0 \<and> F c = 0" if "supp c = 0" for c
  proof -
    have "support c y_true = 0" using that by (simp add: support_card supp_def n_def)
    then have "true_positives c y_true y_pred = 0" using len by (simp add: support_zero_tp)
    then have "ntp c = 0" using tp [of c] by simp
    then show ?thesis using that by (simp add: P_def R_def F_def)
  qed
  have a: "acc (macro_metrics y_true y_pred) =
      real (card {i. i < n \<and> y_pred ! i = y_true ! i}) / real n"
    by (simp add: macro_metrics_def accuracy_card [OF len] n_def)
  have b: "prec (macro_metrics y_true y_pred) = (\<Sum>c \<in> classes. P c) / real (card classes)"
    by (simp add: macro_metrics_def precision_score_def macro_average_sum p classes_def)
  have c: "rec (macro_metrics y_true y_pred) = (\<Sum>c \<in> classes. R c) / real (card classes)"
    by (simp add: macro_metrics_def recall_score_def macro_average_sum r classes_def)
  have d: "f1 (macro_metrics y_true y_pred) = (\<Sum>c \<in> classes. F c) / real (card classes)"
    by (simp add: macro_metrics_def f1_score_def macro_average_sum f classes_def)
  have pos: "0 < n" "0 < card classes"
    using ne by (simp_all add: n_def classes_def card_gt_0_iff)
  show ?thesis using pos a b c d zero by blast
qed

text \<open>
  Four positions and three classes.
\<close>

theorem C5_macro_metrics_witness:
  "length [0, 1, 1, 2 :: int] = length [0, 1, 0, 0 :: int] \<and>
   acc (macro_metrics [0, 1, 1, 2] [0, 1, 0, 0]) =
     real (card {i. i < 4 \<and> [0, 1, 0, 0 :: int] ! i = [0, 1, 1, 2 :: int] ! i}) / 4 \<and>
   card {i. i < 4 \<and> [0, 1, 0, 0 :: int] ! i = [0, 1, 1, 2 :: int] ! i} = 2 \<and>
   macro_metrics [0, 1, 1, 2] [0, 1, 0, 0] = \<lparr>acc = 1 / 2, prec = 4 / 9, rec = 1 / 2, f1 = 7 / 18\<rparr>"
proof -
  have len: "length [0, 1, 1, 2 :: int] = length [0, 1, 0, 0 :: int]" by simp
  have ne: "[0, 1, 1, 2 :: int] \<noteq> []" by simp
  have set_eq: "{i. i < 4 \<and> [0, 1, 0, 0 :: int] ! i = [0, 1, 1, 2 :: int] ! i} = {0, 1}"
    by (auto simp: nth_Cons' less_Suc_eq numeral_eq_Suc)
  have v: "macro_metrics [0, 1, 1, 2] [0, 1, 0, 0] =
      \<lparr>acc = 1 / 2, prec = 4 / 9, rec = 1 / 2, f1 = 7 / 18\<rparr>"
    by code_simp
  note a = C5_macro_metrics [OF len ne, THEN conjunct2, THEN conjunct2, THEN conjunct1]
  have l4: "length [0, 1, 1, 2 :: int] = 4" by simp
  from a have "acc (macro_metrics [0, 1, 1, 2] [0, 1, 0, 0]) =
     real (card {i. i < 4 \<and> [0, 1, 0, 0 :: int] ! i = [0, 1, 1, 2 :: int] ! i}) / 4"
    unfolding l4 by simp
  then show ?thesis using v by (simp add: set_eq)
qed


section \<open>The training loop: order of the batches and number of steps\<close>

text \<open>
  C1 (as stated, refuted): within an epoch the loop does not alternate between minibatches
  of the two tasks.  In the small instance each training loader has two batches; the
  optimizer of the instance records the task of every step, and the run steps on
  \<open>topic, topic, sentiment, sentiment\<close> in each of the three epochs: the topic loader
  is exhausted before the first sentiment batch.
\<close>

theorem C1_batches_do_not_alternate:
  "map_sum id (\<lambda>s. (map fst (optim s), alternates (map fst (optim s))))
     (train_func toy_nn toy_train toy_model toy_loaders ())
   = Inr ([''topic'', ''topic'', ''sentiment'', ''sentiment'',
           ''topic'', ''topic'', ''sentiment'', ''sentiment'',
           ''topic'', ''topic'', ''sentiment'', ''sentiment''], False)"
  by code_simp

text \<open>
  C1 (amended): a completed run of \<open>train_func\<close> leaves the model and the optimizer that
  result from one optimizer step per batch, taken in the order of \<open>batch_order\<close>: in every
  epoch all batches of the topic loader, then all batches of the sentiment loader.  Every
  step, of either task, replaces the shared encoder, the heads and the optimizer state by
  the outcome of \<open>loss.backward(); optim.step()\<close> on that batch.  Where shuffling keeps
  the number of rows, the tasks of the steps are \<open>EPOCHS\<close> repetitions of a block of
  \<open>len(train_topic)\<close> topic steps followed by a block of \<open>len(train_sentiment)\<close>
  sentiment steps.
\<close>

theorem C1_epoch_task_blocks:
  assumes run: "train_func NL TL m loaders g = Inr s"
    and lt: "loaders ''train_topic'' = Some lt" and ls: "loaders ''train_sentiment'' = Some ls"
  shows "(\<exists>sf. sf = foldl (\<lambda>st (t, b). apply_step TL t st b)
                  ((init_trainer TL m (EPOCHS * (len_loader lt + len_loader ls)) g)
                     \<lparr>model := m\<lparr>training := True\<rparr>\<rparr>)
                  (batch_order TL lt ls g EPOCHS) \<and>
              model s = model sf \<and> optim s = optim sf) \<and>
         (\<forall>t st b. (encoder (model (apply_step TL t st b)),
                     heads (model (apply_step TL t st b)),
                     optim (apply_step TL t st b)) =
                    backward_adamw TL (optim st) (sched st) (model st) t b) \<and>
         ((\<forall>g rows. length (fst (shuffle_rows TL g rows)) = length rows) \<longrightarrow>
            map fst (batch_order TL lt ls g EPOCHS) =
              concat (replicate EPOCHS (replicate (len_loader lt) ''topic'' @
                                        replicate (len_loader ls) ''sentiment'')))"
proof (intro conjI)
  from train_func_Inr [OF run lt ls] obtain rows g' where
    "s = (foldl (\<lambda>st (t, b). apply_step TL t st b)
            ((init_trainer TL m (EPOCHS * (len_loader lt + len_loader ls)) g)
               \<lparr>model := m\<lparr>training := True\<rparr>\<rparr>)
            (batch_order TL lt ls g EPOCHS))\<lparr>rng := g', mp_rows := rows\<rparr>"
    by blast
  then show "\<exists>sf. sf = foldl (\<lambda>st (t, b). apply_step TL t st b)
                  ((init_trainer TL m (EPOCHS * (len_loader lt + len_loader ls)) g)
                     \<lparr>model := m\<lparr>training := True\<rparr>\<rparr>)
                  (batch_order TL lt ls g EPOCHS) \<and>
              model s = model sf \<and> optim s = optim sf"
    by simp
next
  show "\<forall>t st b. (encoder (model (apply_step TL t st b)),
                     heads (model (apply_step TL t st b)),
                     optim (apply_step TL t st b)) =
                    backward_adamw TL (optim st) (sched st) (model st) t b"
    by (simp add: apply_step_def split: prod.splits)
next
  show "(\<forall>g rows. length (fst (shuffle_rows TL g rows)) = length rows) \<longrightarrow>
            map fst (batch_order TL lt ls g EPOCHS) =
              concat (replicate EPOCHS (replicate (len_loader lt) ''topic'' @
                                        replicate (len_loader ls) ''sentiment''))"
  proof
    assume "\<forall>g rows. length (fst (shuffle_rows TL g rows)) = length rows"
    then show "map fst (batch_order TL lt ls g EPOCHS) =
              concat (replicate EPOCHS (replicate (len_loader lt) ''topic'' @
                                        replicate (len_loader ls) ''sentiment''))"
      by (rule tasks_batch_order)
  qed
qed

theorem C1_epoch_task_blocks_witness:
  "\<exists>s. train_func toy_nn toy_train toy_model toy_loaders () = Inr s \<and>
       optim s = optim (foldl (\<lambda>st (t, b). apply_step toy_train t st b)
                  ((init_trainer toy_train toy_model 12 ())
                     \<lparr>model := toy_model\<lparr>training := True\<rparr>\<rparr>)
                  (batch_order toy_train toy_train_topic toy_train_sentiment () 3)) \<and>
       map fst (batch_order toy_train toy_train_topic toy_train_sentiment () 3) =
         [''topic'', ''topic'', ''sentiment'', ''sentiment'',
          ''topic'', ''topic'', ''sentiment'', ''sentiment'',
          ''topic'', ''topic'', ''sentiment'', ''sentiment'']"
proof -
  have "\<exists>s. train_func toy_nn toy_train toy_model toy_loaders () = Inr s"
    by (rule train_func_ok [OF toy_linear_nonempty toy_loaders_train(1) _ toy_loaders_train(2)])
      (simp_all add: toy_len_loader)
  then obtain s where run: "train_func toy_nn toy_train toy_model toy_loaders () = Inr s" ..
  from C1_epoch_task_blocks [OF run toy_loaders_train] toy_shuffle_length
  show ?thesis using run
    by (simp add: toy_len_loader EPOCHS_def numeral_eq_Suc)
qed


text \<open>
  C7: a completed run of \<open>train_func\<close> leaves the state that results from the state
  before the first epoch by one \<open>apply_step\<close> per batch of \<open>batch_order\<close>, and each
  \<open>apply_step\<close> is one \<open>loss.backward(); optim.step()\<close> and one \<open>sched.step()\<close>:
  it installs the outcome of the optimizer and adds one to either count.  The counts
  start at 0, and the run meets \<open>EPOCHS * (len(train_topic) + len(train_sentiment))\<close>
  batches, so it ends with that many optimizer steps and scheduler steps, which is the
  \<open>num_training_steps\<close> the scheduler was built with; its warmup is the floor of a tenth
  of that number.  The run completes when both training loaders have a batch and no head
  returns logits of width 0.  The number of batches of an iteration is \<open>len(loader)\<close>
  because shuffling keeps the number of rows.
\<close>

theorem C7_one_step_per_batch:
  fixes NL :: "('bb, 'pj, 'h, 'emb) nn_lib" and TL :: "('bb, 'pj, 'h, 'o, 'g) train_lib"
    and m loaders g lt ls
  defines "N \<equiv> EPOCHS * (len_loader lt + len_loader ls)"
  defines "s0 \<equiv> (init_trainer TL m N g)\<lparr>model := m\<lparr>training := True\<rparr>\<rparr>"
  assumes shuf: "\<forall>g rows. length (fst (shuffle_rows TL g rows)) = length rows"
    and lt: "loaders ''train_topic'' = Some lt" and ls: "loaders ''train_sentiment'' = Some ls"
  shows "(\<forall>s. train_func NL TL m loaders g = Inr s \<longrightarrow>
            (\<exists>g' rows. s = (foldl (\<lambda>st (t, b). apply_step TL t st b) s0
                               (batch_order TL lt ls g EPOCHS))\<lparr>rng := g', mp_rows := rows\<rparr>) \<and>
            optim_steps s = N \<and> sched_steps (sched s) = N \<and>
            num_training_steps (sched s) = N \<and> num_warmup_steps (sched s) = N div 10) \<and>
         length (batch_order TL lt ls g EPOCHS) = N \<and>
         optim_steps s0 = 0 \<and>
         sched s0 = \<lparr>num_warmup_steps = N div 10, num_training_steps = N, sched_steps = 0\<rparr> \<and>
         (\<forall>t st b. apply_step TL t st b =
            (case backward_adamw TL (optim st) (sched st) (model st) t b of
               (enc', hs', o') \<Rightarrow>
                 st\<lparr>model := (model st)\<lparr>encoder := enc', heads := hs'\<rparr>,
                    optim := o',
                    optim_steps := optim_steps st + 1,
                    sched := (sched st)\<lparr>sched_steps := sched_steps (sched st) + 1\<rparr>\<rparr>)) \<and>
         ((\<forall>h e. [] \<notin> set (linear_fwd NL h e)) \<and> 0 < len_loader lt \<and> 0 < len_loader ls \<longrightarrow>
            (\<exists>s. train_func NL TL m loaders g = Inr s))"
proof (intro conjI allI impI)
  have len: "length (batch_order TL lt ls g EPOCHS) = N"
    unfolding N_def using shuf by (rule length_batch_order)
  show "length (batch_order TL lt ls g EPOCHS) = N" by (rule len)
  show "optim_steps s0 = 0" by (simp add: s0_def init_trainer_optim_steps)
  show "sched s0 = \<lparr>num_warmup_steps = N div 10, num_training_steps = N, sched_steps = 0\<rparr>"
    by (simp add: s0_def init_trainer_sched)
  fix s
  assume run: "train_func NL TL m loaders g = Inr s"
  from train_func_Inr [OF run lt ls] obtain rows g' where
    s: "s = (foldl (\<lambda>st (t, b). apply_step TL t st b) s0
               (batch_order TL lt ls g EPOCHS))\<lparr>rng := g', mp_rows := rows\<rparr>"
    unfolding s0_def N_def by blast
  then show "\<exists>g' rows. s = (foldl (\<lambda>st (t, b). apply_step TL t st b) s0
                               (batch_order TL lt ls g EPOCHS))\<lparr>rng := g', mp_rows := rows\<rparr>"
    by blast
  show "optim_steps s = N"
    unfolding s by (simp add: steps_counts len s0_def init_trainer_optim_steps)
  show "sched_steps (sched s) = N"
    unfolding s by (simp add: steps_counts len s0_def init_trainer_sched)
  show "num_training_steps (sched s) = N"
    unfolding s by (simp add: steps_counts s0_def init_trainer_sched)
  show "num_warmup_steps (sched s) = N div 10"
    unfolding s by (simp add: steps_counts s0_def init_trainer_sched)
next
  fix t st b
  show "apply_step TL t st b =
            (case backward_adamw TL (optim st) (sched st) (model st) t b of
               (enc', hs', o') \<Rightarrow>
                 st\<lparr>model := (model st)\<lparr>encoder := enc', heads := hs'\<rparr>,
                    optim := o',
                    optim_steps := optim_steps st + 1,
                    sched := (sched st)\<lparr>sched_steps := sched_steps (sched st) + 1\<rparr>\<rparr>)"
    by (simp add: apply_step_def)
next
  assume "(\<forall>h e. [] \<notin> set (linear_fwd NL h e)) \<and> 0 < len_loader lt \<and> 0 < len_loader ls"
  then show "\<exists>s. train_func NL TL m loaders g = Inr s"
    using train_func_ok [of NL loaders lt ls TL m g] lt ls by blast
qed

text \<open>
  The run of the small instance: twelve steps, recorded by its optimizer.
\<close>

theorem C7_one_step_per_batch_witness:
  "\<exists>s. train_func toy_nn toy_train toy_model toy_loaders () = Inr s \<and>
       optim_steps s = 12 \<and>
       sched s = \<lparr>num_warmup_steps = 1, num_training_steps = 12, sched_steps = 12\<rparr> \<and>
       optim s = [(''topic'', 16), (''topic'', 1), (''sentiment'', 16), (''sentiment'', 1),
                  (''topic'', 16), (''topic'', 1), (''sentiment'', 16), (''sentiment'', 1),
                  (''topic'', 16), (''topic'', 1), (''sentiment'', 16), (''sentiment'', 1)]"
proof -
  note inst = C7_one_step_per_batch [OF toy_shuffle_length toy_loaders_train, of toy_nn toy_model "()"]
  let ?f = "foldl (\<lambda>st (t, b). apply_step toy_train t st b)
              ((init_trainer toy_train toy_model 12 ())\<lparr>model := toy_model\<lparr>training := True\<rparr>\<rparr>)
              (batch_order toy_train toy_train_topic toy_train_sentiment () 3)"
  have v: "optim ?f = [(''topic'', 16), (''topic'', 1), (''sentiment'', 16), (''sentiment'', 1),
                  (''topic'', 16), (''topic'', 1), (''sentiment'', 16), (''sentiment'', 1),
                  (''topic'', 16), (''topic'', 1), (''sentiment'', 16), (''sentiment'', 1)]"
      "sched ?f = \<lparr>num_warmup_steps = 1, num_training_steps = 12, sched_steps = 12\<rparr>"
      "optim_steps ?f = 12"
    by code_simp+
  from inst toy_linear_nonempty
  obtain s where run: "train_func toy_nn toy_train toy_model toy_loaders () = Inr s"
    by (auto simp: toy_len_loader)
  have e1: "EPOCHS * (len_loader toy_train_topic + len_loader toy_train_sentiment) = 12"
    and e2: "EPOCHS = 3"
    by (simp_all add: toy_len_loader EPOCHS_def)
  note c = inst [THEN conjunct1, rule_format, OF run, THEN conjunct1, unfolded e1, unfolded e2]
  from c obtain g' rows where "s = ?f\<lparr>rng := g', mp_rows := rows\<rparr>"
    by blast
  then show ?thesis using run v by simp
qed


section \<open>Evaluation\<close>

lemma evaluate_model: "fst (evaluate NL TL m g loaders stage nt ns) = m\<lparr>training := False\<rparr>"
  by (simp add: evaluate_def Let_def)

text \<open>
  C10: \<open>evaluate\<close>, for any stage, leaves the encoder and the heads of the model as
  they were: it only switches the model to evaluation mode.  It has no access to the
  optimizer.  So the model that \<open>main_function\<close> returns carries the parameters that
  \<open>train_func\<close> left.
\<close>

theorem C10_evaluate_keeps_parameters:
  "encoder (fst (evaluate NL TL m g loaders stage names_topic names_sent)) = encoder m \<and>
   heads (fst (evaluate NL TL m g loaders stage names_topic names_sent)) = heads m \<and>
   fst (evaluate NL TL m g loaders stage names_topic names_sent) = m\<lparr>training := False\<rparr> \<and>
   (\<forall>m'. main_function NL TL g ag_tr ag_val ag_test sst_tr sst_val sst_test = Inr m' \<longrightarrow>
      (\<exists>loaders n_topic n_sent t_names s_names s.
           make_loaders ag_tr ag_val ag_test sst_tr sst_val sst_test =
             Inr (loaders, n_topic, n_sent, t_names, s_names) \<and>
           train_func NL TL (MultiTaskModel_init NL n_topic n_sent) loaders g = Inr s \<and>
           encoder m' = encoder (model s) \<and> heads m' = heads (model s)))"
proof (intro conjI allI impI)
  show "encoder (fst (evaluate NL TL m g loaders stage names_topic names_sent)) = encoder m"
    by (simp add: evaluate_def Let_def)
  show "heads (fst (evaluate NL TL m g loaders stage names_topic names_sent)) = heads m"
    by (simp add: evaluate_def Let_def)
  show "fst (evaluate NL TL m g loaders stage names_topic names_sent) = m\<lparr>training := False\<rparr>"
    by (simp add: evaluate_def Let_def)
next
  fix m'
  assume main: "main_function NL TL g ag_tr ag_val ag_test sst_tr sst_val sst_test = Inr m'"
  then obtain pl where ml0: "make_loaders ag_tr ag_val ag_test sst_tr sst_val sst_test = Inr pl"
    by (cases "make_loaders ag_tr ag_val ag_test sst_tr sst_val sst_test")
      (auto simp: main_function_def)
  obtain lds nt ns tn sn where pl: "pl = (lds, nt, ns, tn, sn)" by (rule prod_cases5)
  note ml = ml0 [unfolded pl]
  let ?m0 = "MultiTaskModel_init NL nt ns"
  have main': "(case train_func NL TL ?m0 lds g of
        Inl e \<Rightarrow> Inl e
      | Inr s \<Rightarrow>
          (case evaluate NL TL (model s) (rng s) lds ''val'' tn sn of
             (m1, g1, Inl e) \<Rightarrow> Inl e
           | (m1, g1, Inr out1) \<Rightarrow>
               (case evaluate NL TL m1 g1 lds ''test'' tn sn of
                  (m2, g2, Inl e) \<Rightarrow> Inl e
                | (m2, g2, Inr out2) \<Rightarrow>
                    Inr (m2\<lparr>topic_label_names := Some tn,
                            sentiment_label_names := Some sn\<rparr>)))) = Inr m'"
    using main by (simp add: main_function_def ml)
  then obtain s where run: "train_func NL TL ?m0 lds g = Inr s"
    by (cases "train_func NL TL ?m0 lds g") auto
  obtain m1 g1 r1 where e1: "evaluate NL TL (model s) (rng s) lds ''val'' tn sn = (m1, g1, r1)"
    by (rule prod_cases3)
  obtain m2 g2 r2 where e2: "evaluate NL TL m1 g1 lds ''test'' tn sn = (m2, g2, r2)"
    by (rule prod_cases3)
  have m1: "m1 = (model s)\<lparr>training := False\<rparr>"
    using evaluate_model [of NL TL "model s" "rng s" lds "''val''" tn sn] e1
    by simp
  have m2: "m2 = m1\<lparr>training := False\<rparr>"
    using evaluate_model [of NL TL m1 g1 lds "''test''" tn sn] e2
    by simp
  have "m' = m2\<lparr>topic_label_names := Some tn, sentiment_label_names := Some sn\<rparr>"
    using main' run e1 e2 by (cases r1; cases r2) auto
  then have "encoder m' = encoder (model s) \<and> heads m' = heads (model s)"
    by (simp add: m1 m2)
  then show "\<exists>loaders n_topic n_sent t_names s_names s.
           make_loaders ag_tr ag_val ag_test sst_tr sst_val sst_test =
             Inr (loaders, n_topic, n_sent, t_names, s_names) \<and>
           train_func NL TL (MultiTaskModel_init NL n_topic n_sent) loaders g = Inr s \<and>
           encoder m' = encoder (model s) \<and> heads m' = heads (model s)"
    using ml run by blast
qed

text \<open>
  The validation pass of the small instance.
\<close>

theorem C10_evaluate_keeps_parameters_witness:
  "evaluate toy_nn toy_train toy_named () toy_loaders ''val'' topic_names sent_names =
     (toy_named\<lparr>training := False\<rparr>, (),
      Inr [(''topic'', \<lparr>acc = 4 / 17, prec = 1 / 17, rec = 1 / 4, f1 = 2 / 21\<rparr>, []),
           (''sentiment'', \<lparr>acc = 9 / 17, prec = 9 / 34, rec = 1 / 2, f1 = 9 / 26\<rparr>, [])]) \<and>
   encoder (toy_named\<lparr>training := False\<rparr>) = encoder toy_named \<and>
   heads (toy_named\<lparr>training := False\<rparr>) = heads toy_named"
proof -
  have v: "snd (evaluate toy_nn toy_train toy_named () toy_loaders ''val'' topic_names sent_names) =
     ((), Inr [(''topic'', \<lparr>acc = 4 / 17, prec = 1 / 17, rec = 1 / 4, f1 = 2 / 21\<rparr>, []),
           (''sentiment'', \<lparr>acc = 9 / 17, prec = 9 / 34, rec = 1 / 2, f1 = 9 / 26\<rparr>, [])])"
    by code_simp
  from C10_evaluate_keeps_parameters [of toy_nn toy_train toy_named "()" toy_loaders "''val''"
      topic_names sent_names]
  have "fst (evaluate toy_nn toy_train toy_named () toy_loaders ''val'' topic_names sent_names) =
      toy_named\<lparr>training := False\<rparr>"
    by blast
  then show ?thesis using v by (simp add: prod_eq_iff)
qed


end
